theory Spec2Isabelle
  imports Complex_Main
begin

section \<open>Python values\<close>

text \<open>
  The handlers of \<^verbatim>\<open>whalewatch_core.py\<close> receive JSON-decoded values typed
  \<^verbatim>\<open>Dict[str, any]\<close>, so the model carries Python's dynamic values. A float is a
  finite number, where \<open>Finite 0\<close> is the positive zero, or the negative zero, or one of
  the three special values that \<^verbatim>\<open>json.loads\<close> and \<^verbatim>\<open>float()\<close> can
  produce. The type admits every real as a finite value, the doubles among them: what is
  proved below holds for all of them, and the operations round their results to doubles.
  Every exception of the source is a value.
\<close>

datatype pyfloat = Finite real | NegZero | PosInf | NegInf | NaN

datatype pyval =
    PNone
  | PBool bool
  | PInt int
  | PFloat pyfloat
  | PStr string
  | PList "pyval list"
  | PDict "(string \<times> pyval) list"

datatype pyexc =
    TypeError
  | ValueError
  | OverflowError
  | AttributeError
  | KeyError
  | IndexError
  | ZeroDivisionError
  | QueueFull
  | OtherException string
  | KeyboardInterrupt
  | SystemExit
  | GeneratorExit
  | OtherBaseException string

text \<open>\<^verbatim>\<open>isinstance(e, Exception)\<close>: what \<^verbatim>\<open>except Exception\<close> catches.\<close>

fun is_Exception :: "pyexc \<Rightarrow> bool" where
  "is_Exception KeyboardInterrupt = False"
| "is_Exception SystemExit = False"
| "is_Exception GeneratorExit = False"
| "is_Exception (OtherBaseException _) = False"
| "is_Exception _ = True"

text \<open>Sequencing of computations that may raise.\<close>

definition py_bind :: "pyexc + 'a \<Rightarrow> ('a \<Rightarrow> pyexc + 'b) \<Rightarrow> pyexc + 'b" where
  "py_bind m f = (case m of Inl e \<Rightarrow> Inl e | Inr x \<Rightarrow> f x)"

subsection \<open>Float arithmetic\<close>

text \<open>
  A Python float is an IEEE 754 double: 53 significant bits, the least exponent
  \<open>- 1022\<close>, below it the subnormal numbers, which are the multiples of \<open>2\<close> to the
  \<open>- 1074\<close>. Every operation gives the double nearest to the exact result, the one
  with the even significand when two are equally near.

  \<open>bit_length n\<close> is the number of binary digits of a positive integer and \<open>ilog2 x\<close>
  the exponent of a positive real: the integer \<open>e\<close> with \<open>x\<close> from \<open>2\<close> to the \<open>e\<close>
  up to, and without, \<open>2\<close> to the \<open>e + 1\<close>.
\<close>

function bit_length :: "int \<Rightarrow> int" where
  "bit_length n = (if n \<le> 0 then 0 else bit_length (n div 2) + 1)"
  by pat_completeness auto
termination
  by (relation "measure nat") auto

declare bit_length.simps [simp del]

definition pow2 :: "int \<Rightarrow> real" where
  "pow2 k = (if 0 \<le> k then 2 ^ nat k else 1 / 2 ^ nat (- k))"

definition ilog2 :: "real \<Rightarrow> int" where
  "ilog2 x =
     (if 1 \<le> x then bit_length \<lfloor>x\<rfloor> - 1
      else let k = bit_length \<lfloor>1 / x\<rfloor> - 1
           in if 1 / x = pow2 k then - k else - k - 1)"

definition round_half_even :: "real \<Rightarrow> int" where
  "round_half_even r =
     (let f = \<lfloor>r\<rfloor>; d = r - of_int f
      in if d < 1 / 2 then f else if 1 / 2 < d then f + 1 else if even f then f else f + 1)"

text \<open>
  The double nearest to a real, with the exponent unbounded above: the result is a
  multiple of the spacing of the doubles around \<open>x\<close>.
\<close>

definition round_double :: "real \<Rightarrow> real" where
  "round_double x =
     (if x = 0 then 0
      else let q = pow2 (max (ilog2 \<bar>x\<bar>) (- 1022) - 52)
           in sgn x * (of_int (round_half_even (\<bar>x\<bar> / q)) * q))"

text \<open>
  The float of an exact result: an infinity when the rounded value reaches \<open>2\<close> to
  the 1024, a zero of the sign of the exact result when it rounds to zero.
\<close>

definition fl_round :: "bool \<Rightarrow> real \<Rightarrow> pyfloat" where
  "fl_round negative x =
     (let y = round_double x
      in if 2 ^ 1024 \<le> \<bar>y\<bar> then (if y < 0 then NegInf else PosInf)
         else if y = 0 then (if negative then NegZero else Finite 0)
         else Finite y)"

text \<open>
  Converting an int to a float raises OverflowError once the int rounds to \<open>2 ^ 1024\<close>,
  that is from \<open>2 ^ 1024 - 2 ^ 970\<close> on.
\<close>

definition DBL_OVERFLOW :: int where
  "DBL_OVERFLOW = 2 ^ 1024 - 2 ^ 970"

definition py_float_of_int :: "int \<Rightarrow> pyexc + pyfloat" where
  "py_float_of_int n =
     (if DBL_OVERFLOW \<le> \<bar>n\<bar> then Inl OverflowError
      else Inr (Finite (round_double (real_of_int n))))"

definition fl_is_zero :: "pyfloat \<Rightarrow> bool" where
  "fl_is_zero f = (f = Finite 0 \<or> f = NegZero)"

definition fl_is_inf :: "pyfloat \<Rightarrow> bool" where
  "fl_is_inf f = (f = PosInf \<or> f = NegInf)"

text \<open>The sign bit and the value of a float that is not NaN (0 for the infinities).\<close>

fun fl_negative :: "pyfloat \<Rightarrow> bool" where
  "fl_negative (Finite r) = (r < 0)"
| "fl_negative NegZero = True"
| "fl_negative NegInf = True"
| "fl_negative _ = False"

fun fl_value :: "pyfloat \<Rightarrow> real" where
  "fl_value (Finite r) = r"
| "fl_value _ = 0"

definition fl_inf :: "bool \<Rightarrow> pyfloat" where
  "fl_inf negative = (if negative then NegInf else PosInf)"

definition fl_zero :: "bool \<Rightarrow> pyfloat" where
  "fl_zero negative = (if negative then NegZero else Finite 0)"

text \<open>Truth value of a float: everything but the two zeros, NaN included.\<close>

definition fl_truthy :: "pyfloat \<Rightarrow> bool" where
  "fl_truthy f = (\<not> fl_is_zero f)"

text \<open>\<^verbatim>\<open>a >= b\<close> on floats: false as soon as one side is NaN.\<close>

definition fl_ge :: "pyfloat \<Rightarrow> pyfloat \<Rightarrow> bool" where
  "fl_ge a b =
     (if a = NaN \<or> b = NaN then False
      else if a = PosInf \<or> b = NegInf then True
      else if a = NegInf \<or> b = PosInf then False
      else fl_value b \<le> fl_value a)"

text \<open>\<^verbatim>\<open>a * b\<close> on floats: an infinity times a zero is NaN.\<close>

definition fl_mul :: "pyfloat \<Rightarrow> pyfloat \<Rightarrow> pyfloat" where
  "fl_mul a b =
     (if a = NaN \<or> b = NaN then NaN
      else if (fl_is_inf a \<and> fl_is_zero b) \<or> (fl_is_zero a \<and> fl_is_inf b) then NaN
      else if fl_is_inf a \<or> fl_is_inf b then fl_inf (fl_negative a \<noteq> fl_negative b)
      else fl_round (fl_negative a \<noteq> fl_negative b) (fl_value a * fl_value b))"

text \<open>\<^verbatim>\<open>a / b\<close> on floats: a zero divisor raises, whatever the dividend.\<close>

definition fl_truediv :: "pyfloat \<Rightarrow> pyfloat \<Rightarrow> pyexc + pyfloat" where
  "fl_truediv a b =
     (if fl_is_zero b then Inl ZeroDivisionError
      else if a = NaN \<or> b = NaN then Inr NaN
      else if fl_is_inf a \<and> fl_is_inf b then Inr NaN
      else if fl_is_inf a then Inr (fl_inf (fl_negative a \<noteq> fl_negative b))
      else if fl_is_inf b then Inr (fl_zero (fl_negative a \<noteq> fl_negative b))
      else Inr (fl_round (fl_negative a \<noteq> fl_negative b) (fl_value a / fl_value b)))"

text \<open>\<^verbatim>\<open>n / f\<close> and \<^verbatim>\<open>f / n\<close> with an int \<open>n\<close>: the int is converted first.\<close>

definition py_truediv_int_float :: "int \<Rightarrow> pyfloat \<Rightarrow> pyexc + pyfloat" where
  "py_truediv_int_float n f = py_bind (py_float_of_int n) (\<lambda>x. fl_truediv x f)"

definition py_truediv_float_int :: "pyfloat \<Rightarrow> int \<Rightarrow> pyexc + pyfloat" where
  "py_truediv_float_int f n = py_bind (py_float_of_int n) (\<lambda>x. fl_truediv f x)"

subsection \<open>Builtins on dynamic values\<close>

text \<open>
  \<^verbatim>\<open>int(x)\<close>. The conversion of a string is Python's own parser, which is not part
  of the repository: it is the parameter \<open>int_of_str\<close>, \<open>None\<close> where the builtin
  raises ValueError. A finite float is truncated towards zero, NaN raises ValueError and
  an infinity raises OverflowError.
\<close>

fun py_int :: "(string \<Rightarrow> int option) \<Rightarrow> pyval \<Rightarrow> pyexc + int" where
  "py_int int_of_str PNone = Inl TypeError"
| "py_int int_of_str (PBool b) = Inr (if b then 1 else 0)"
| "py_int int_of_str (PInt n) = Inr n"
| "py_int int_of_str (PFloat (Finite r)) = Inr (if 0 \<le> r then \<lfloor>r\<rfloor> else \<lceil>r\<rceil>)"
| "py_int int_of_str (PFloat NegZero) = Inr 0"
| "py_int int_of_str (PFloat NaN) = Inl ValueError"
| "py_int int_of_str (PFloat PosInf) = Inl OverflowError"
| "py_int int_of_str (PFloat NegInf) = Inl OverflowError"
| "py_int int_of_str (PStr s) =
     (case int_of_str s of None \<Rightarrow> Inl ValueError | Some n \<Rightarrow> Inr n)"
| "py_int int_of_str (PList xs) = Inl TypeError"
| "py_int int_of_str (PDict d) = Inl TypeError"

text \<open>\<^verbatim>\<open>x.get(key, default)\<close>: only a dict has the method.\<close>

fun py_get :: "pyval \<Rightarrow> string \<Rightarrow> pyval \<Rightarrow> pyexc + pyval" where
  "py_get (PDict d) k dflt = Inr (case map_of d k of None \<Rightarrow> dflt | Some v \<Rightarrow> v)"
| "py_get _ k dflt = Inl AttributeError"

text \<open>
  \<^verbatim>\<open>for out in x\<close>: the elements of a list, the characters of a string, the keys of a
  dict; anything else is not iterable.
\<close>

fun py_iter :: "pyval \<Rightarrow> pyexc + pyval list" where
  "py_iter (PList xs) = Inr xs"
| "py_iter (PStr s) = Inr (map (\<lambda>c. PStr [c]) s)"
| "py_iter (PDict d) = Inr (map (\<lambda>kv. PStr (fst kv)) d)"
| "py_iter _ = Inl TypeError"

text \<open>Truth value, as \<^verbatim>\<open>x if outputs else y\<close> takes it.\<close>

fun py_truthy :: "pyval \<Rightarrow> bool" where
  "py_truthy PNone = False"
| "py_truthy (PBool b) = b"
| "py_truthy (PInt n) = (n \<noteq> 0)"
| "py_truthy (PFloat f) = fl_truthy f"
| "py_truthy (PStr s) = (s \<noteq> [])"
| "py_truthy (PList xs) = (xs \<noteq> [])"
| "py_truthy (PDict d) = (d \<noteq> [])"

text \<open>
  \<^verbatim>\<open>x[0]\<close>: the first element of a list, the first character of a string; a
  JSON dict has string keys, so the key 0 is missing; other values are not
  subscriptable.
\<close>

fun py_first :: "pyval \<Rightarrow> pyexc + pyval" where
  "py_first (PList (x # xs)) = Inr x"
| "py_first (PList []) = Inl IndexError"
| "py_first (PStr (c # cs)) = Inr (PStr [c])"
| "py_first (PStr []) = Inl IndexError"
| "py_first (PDict d) = Inl KeyError"
| "py_first _ = Inl TypeError"

section \<open>The watcher\<close>

text \<open>
  The result of calling the user's callback, and the state of a \<^verbatim>\<open>WhaleWatch\<close>
  object (\<^verbatim>\<open>__init__\<close>, lines 52 to 76). The lock and the stop event carry no data.
\<close>

datatype cb_result = Returns | Raises pyexc

type_synonym callback_fn = "string \<Rightarrow> pyval \<Rightarrow> cb_result"

record WhaleWatch =
  threshold_btc :: pyfloat
  summary_interval :: int
  callback :: "callback_fn option"
  unconfirmed_count :: int
  total_value_sat :: int
  whale_count :: int
  price_usd :: "pyfloat option"

text \<open>How a method ends: it returns, or an exception leaves it.\<close>

datatype outcome = Normal | Raise pyexc

text \<open>An emission is one call of the callback: the event type and the data dict.\<close>

type_synonym emission = "string \<times> pyval"

definition reset_stats :: "WhaleWatch \<Rightarrow> WhaleWatch" where
  "reset_stats s = s\<lparr>unconfirmed_count := 0, total_value_sat := 0, whale_count := 0\<rparr>"

definition WhaleWatch_init :: "pyfloat \<Rightarrow> int \<Rightarrow> callback_fn option \<Rightarrow> WhaleWatch" where
  "WhaleWatch_init threshold interval cb =
     \<lparr>threshold_btc = threshold, summary_interval = interval, callback = cb,
      unconfirmed_count = 0, total_value_sat = 0, whale_count = 0, price_usd = None\<rparr>"

text \<open>
  \<^verbatim>\<open>try: self.callback(event_type, event_data) except Exception: pass\<close>: an
  exception that is an \<^verbatim>\<open>Exception\<close> is dropped, any other one leaves the method.
\<close>

definition invoke_callback :: "callback_fn \<Rightarrow> string \<Rightarrow> pyval \<Rightarrow> outcome" where
  "invoke_callback cb event_type event_data =
     (case cb event_type event_data of
        Returns \<Rightarrow> Normal
      | Raises e \<Rightarrow> if is_Exception e then Normal else Raise e)"

text \<open>\<^verbatim>\<open>self._price_usd or 0.0\<close>.\<close>

definition price_or_zero :: "pyfloat option \<Rightarrow> pyfloat" where
  "price_or_zero p =
     (case p of None \<Rightarrow> Finite 0 | Some f \<Rightarrow> if fl_truthy f then f else Finite 0)"

subsection \<open>Unconfirmed transactions\<close>

text \<open>
  The loop of lines 125 to 129. The body of the \<^verbatim>\<open>try\<close> is
  \<^verbatim>\<open>int(out.get("value", 0))\<close>; TypeError and ValueError skip the output, any other
  exception leaves the handler.
\<close>

definition output_value :: "(string \<Rightarrow> int option) \<Rightarrow> pyval \<Rightarrow> pyexc + int" where
  "output_value int_of_str out =
     py_bind (py_get out ''value'' (PInt 0)) (py_int int_of_str)"

fun sum_outputs :: "(string \<Rightarrow> int option) \<Rightarrow> pyval list \<Rightarrow> int \<Rightarrow> pyexc + int" where
  "sum_outputs int_of_str [] total_sat = Inr total_sat"
| "sum_outputs int_of_str (out # rest) total_sat =
     (case output_value int_of_str out of
        Inr n \<Rightarrow> sum_outputs int_of_str rest (total_sat + n)
      | Inl e \<Rightarrow>
          if e = TypeError \<or> e = ValueError then sum_outputs int_of_str rest total_sat
          else Inl e)"

text \<open>
  Lines 123 to 133, the part of \<^verbatim>\<open>_handle_unconfirmed_tx\<close> before the lock: the
  locals \<open>total_sat\<close>, \<open>total_btc\<close>, \<open>first_addr\<close>, \<open>timestamp\<close> and \<open>tx_hash\<close>, or
  the exception that leaves the handler before it touches the object.
\<close>

type_synonym tx_locals = "int \<times> pyfloat \<times> pyval \<times> pyval \<times> pyval"

definition first_addr_of :: "pyval \<Rightarrow> pyexc + pyval" where
  "first_addr_of outputs =
     (if py_truthy outputs
      then py_bind (py_first outputs) (\<lambda>out0. py_get out0 ''addr'' PNone)
      else Inr PNone)"

definition unconfirmed_tx_locals :: "(string \<Rightarrow> int option) \<Rightarrow> pyval \<Rightarrow> pyexc + tx_locals" where
  "unconfirmed_tx_locals int_of_str tx =
     py_bind (py_get tx ''out'' (PList [])) (\<lambda>outputs.
     py_bind (py_iter outputs) (\<lambda>outs.
     py_bind (sum_outputs int_of_str outs 0) (\<lambda>total_sat.
     py_bind (py_truediv_int_float total_sat (Finite 100000000)) (\<lambda>total_btc.
     py_bind (first_addr_of outputs) (\<lambda>first_addr.
     py_bind (py_get tx ''time'' PNone) (\<lambda>timestamp.
     py_bind (py_get tx ''hash'' PNone) (\<lambda>tx_hash.
     Inr (total_sat, total_btc, first_addr, timestamp, tx_hash))))))))"

text \<open>Lines 135 to 152, the part under the lock.\<close>

definition whale_event_data :: "WhaleWatch \<Rightarrow> tx_locals \<Rightarrow> pyval" where
  "whale_event_data s l =
     (case l of (total_sat, total_btc, first_addr, timestamp, tx_hash) \<Rightarrow>
        PDict [(''hash'', tx_hash),
               (''value_btc'', PFloat total_btc),
               (''value_usd'', PFloat (fl_mul (price_or_zero (price_usd s)) total_btc)),
               (''timestamp'', timestamp),
               (''address'', first_addr)])"

definition record_unconfirmed_tx ::
  "WhaleWatch \<Rightarrow> tx_locals \<Rightarrow> outcome \<times> WhaleWatch \<times> emission list" where
  "record_unconfirmed_tx s l =
     (case l of (total_sat, total_btc, first_addr, timestamp, tx_hash) \<Rightarrow>
        let s1 = s\<lparr>unconfirmed_count := unconfirmed_count s + 1,
                   total_value_sat := total_value_sat s + total_sat\<rparr>
        in if fl_ge total_btc (threshold_btc s1)
           then let s2 = s1\<lparr>whale_count := whale_count s1 + 1\<rparr>
                in (case callback s2 of
                      None \<Rightarrow> (Normal, s2, [])
                    | Some cb \<Rightarrow>
                        (invoke_callback cb ''whale'' (whale_event_data s2 l), s2,
                         [(''whale'', whale_event_data s2 l)]))
           else (Normal, s1, []))"

definition handle_unconfirmed_tx ::
  "(string \<Rightarrow> int option) \<Rightarrow> WhaleWatch \<Rightarrow> pyval \<Rightarrow> outcome \<times> WhaleWatch \<times> emission list" where
  "handle_unconfirmed_tx int_of_str s tx =
     (case unconfirmed_tx_locals int_of_str tx of
        Inl e \<Rightarrow> (Raise e, s, [])
      | Inr l \<Rightarrow> record_unconfirmed_tx s l)"

subsection \<open>Blocks\<close>

text \<open>
  \<^verbatim>\<open>_handle_new_block\<close>, lines 154 to 168. \<open>now\<close> is the reading of
  \<^verbatim>\<open>datetime.now().timestamp()\<close>.
\<close>

definition handle_new_block ::
  "WhaleWatch \<Rightarrow> pyval \<Rightarrow> pyfloat \<Rightarrow> outcome \<times> WhaleWatch \<times> emission list" where
  "handle_new_block s block now =
     (case py_bind (py_get block ''height'' PNone) (\<lambda>height.
           py_bind (py_get block ''nTx'' PNone) (\<lambda>n_tx.
           Inr (PDict [(''height'', height), (''n_tx'', n_tx), (''timestamp'', PFloat now)]))) of
        Inl e \<Rightarrow> (Raise e, s, [])
      | Inr event_data \<Rightarrow>
          (case callback s of
             None \<Rightarrow> (Normal, s, [])
           | Some cb \<Rightarrow> (invoke_callback cb ''block'' event_data, s, [(''block'', event_data)])))"

subsection \<open>The summary cycle\<close>

text \<open>
  One iteration of the loop of \<^verbatim>\<open>_summary_loop\<close> after the sleep, lines 174 to
  197, in its two parts: the snapshot and the reset under the lock, then the event.
  \<open>Normal\<close> means that control is back at the test of the \<^verbatim>\<open>while\<close>, which is
  what \<^verbatim>\<open>continue\<close> does; \<open>Raise\<close> ends the thread.
\<close>

definition summary_event_data :: "int \<Rightarrow> pyfloat \<Rightarrow> pyfloat \<Rightarrow> pyfloat \<Rightarrow> int \<Rightarrow> pyfloat \<Rightarrow> pyval" where
  "summary_event_data count total_btc avg_btc price whales now =
     PDict [(''count'', PInt count),
            (''total_btc'', PFloat total_btc),
            (''avg_btc'', PFloat avg_btc),
            (''total_usd'', PFloat (fl_mul total_btc price)),
            (''avg_usd'', PFloat (fl_mul avg_btc price)),
            (''whales'', PInt whales),
            (''timestamp'', PFloat now)]"

text \<open>Lines 174 to 178, under the lock: the three counters as read, and the object reset.\<close>

definition summary_snapshot :: "WhaleWatch \<Rightarrow> (int \<times> int \<times> int) \<times> WhaleWatch" where
  "summary_snapshot s =
     ((unconfirmed_count s, total_value_sat s, whale_count s), reset_stats s)"

text \<open>
  Lines 179 to 197, after the lock is released: \<open>s\<close> is the object as it is then, of
  which the price and the callback are read.
\<close>

definition summary_emit ::
  "WhaleWatch \<Rightarrow> int \<times> int \<times> int \<Rightarrow> pyfloat \<Rightarrow> outcome \<times> emission list" where
  "summary_emit s snapshot now =
     (case snapshot of (count, total_sat, whales) \<Rightarrow>
        if count = 0 then (Normal, [])
        else
          (case py_bind (py_truediv_int_float total_sat (Finite 100000000)) (\<lambda>total_btc.
                py_bind (py_truediv_float_int total_btc count) (\<lambda>avg_btc.
                Inr (summary_event_data count total_btc avg_btc
                       (price_or_zero (price_usd s)) whales now))) of
             Inl e \<Rightarrow> (Raise e, [])
           | Inr event_data \<Rightarrow>
               (case callback s of
                  None \<Rightarrow> (Normal, [])
                | Some cb \<Rightarrow>
                    (invoke_callback cb ''summary'' event_data,
                     [(''summary'', event_data)]))))"

text \<open>The whole iteration, when no other thread acts between its two parts.\<close>

definition summary_cycle ::
  "WhaleWatch \<Rightarrow> pyfloat \<Rightarrow> outcome \<times> WhaleWatch \<times> emission list" where
  "summary_cycle s now =
     (case summary_snapshot s of
        (snapshot, s') \<Rightarrow>
          (case summary_emit s' snapshot now of (oc, ems) \<Rightarrow> (oc, s', ems)))"

subsection \<open>Configuration and price\<close>

definition update_threshold :: "WhaleWatch \<Rightarrow> pyfloat \<Rightarrow> WhaleWatch" where
  "update_threshold s threshold = s\<lparr>threshold_btc := threshold\<rparr>"

definition update_interval :: "WhaleWatch \<Rightarrow> int \<Rightarrow> WhaleWatch" where
  "update_interval s interval = s\<lparr>summary_interval := interval\<rparr>"

text \<open>\<^verbatim>\<open>update_config\<close>, lines 228 to 242: \<open>None\<close> is the argument left out.\<close>

definition update_config :: "WhaleWatch \<Rightarrow> pyfloat option \<Rightarrow> int option \<Rightarrow> WhaleWatch" where
  "update_config s threshold interval =
     (let s1 = (case threshold of None \<Rightarrow> s | Some t \<Rightarrow> s\<lparr>threshold_btc := t\<rparr>)
      in (case interval of None \<Rightarrow> s1 | Some i \<Rightarrow> s1\<lparr>summary_interval := i\<rparr>))"

text \<open>
  One iteration of \<^verbatim>\<open>_price_loop\<close>, lines 97 to 99; \<open>fetched\<close> is what
  \<^verbatim>\<open>_fetch_price\<close> returned.
\<close>

definition price_loop_step :: "WhaleWatch \<Rightarrow> pyfloat option \<Rightarrow> WhaleWatch" where
  "price_loop_step s fetched =
     (case fetched of None \<Rightarrow> s | Some price \<Rightarrow> s\<lparr>price_usd := Some price\<rparr>)"

subsection \<open>Interleavings\<close>

text \<open>
  The threads of \<^verbatim>\<open>start\<close> act on one object. Each action below is one critical
  section, or one handler whose reads and writes of the object all lie in one critical
  section, so a run of the object is a sequence of actions; the summary cycle, which
  reads the price after its critical section, is taken here as one action. An exception
  that leaves a handler leaves the object as it is then.
\<close>

datatype action =
    Utx pyval
  | NewBlock pyval pyfloat
  | SummaryCycle pyfloat
  | UpdateConfig "pyfloat option" "int option"
  | UpdateThreshold pyfloat
  | UpdateInterval int
  | PriceFetched "pyfloat option"

fun step ::
  "(string \<Rightarrow> int option) \<Rightarrow> WhaleWatch \<Rightarrow> action \<Rightarrow> outcome \<times> WhaleWatch \<times> emission list" where
  "step int_of_str s (Utx tx) = handle_unconfirmed_tx int_of_str s tx"
| "step int_of_str s (NewBlock block now) = handle_new_block s block now"
| "step int_of_str s (SummaryCycle now) = summary_cycle s now"
| "step int_of_str s (UpdateConfig threshold interval) =
     (Normal, update_config s threshold interval, [])"
| "step int_of_str s (UpdateThreshold threshold) = (Normal, update_threshold s threshold, [])"
| "step int_of_str s (UpdateInterval interval) = (Normal, update_interval s interval, [])"
| "step int_of_str s (PriceFetched fetched) = (Normal, price_loop_step s fetched, [])"

fun run ::
  "(string \<Rightarrow> int option) \<Rightarrow> WhaleWatch \<Rightarrow> action list \<Rightarrow> WhaleWatch \<times> emission list" where
  "run int_of_str s [] = (s, [])"
| "run int_of_str s (a # rest) =
     (case step int_of_str s a of
        (oc, s', ems) \<Rightarrow>
          (case run int_of_str s' rest of (s'', ems') \<Rightarrow> (s'', ems @ ems')))"

section \<open>The web front end\<close>

subsection \<open>Fan-out\<close>

text \<open>
  A \<^verbatim>\<open>queue.Queue\<close>: its bound and its items, oldest first. \<^verbatim>\<open>put\<close> with a
  timeout raises \<^verbatim>\<open>Full\<close> when the bound is positive and reached and no consumer
  takes an item before the timeout; the model has no consumer running during a put. The
  second component is the time the call has waited for a free slot.
\<close>

record pyqueue =
  maxsize :: int
  queue :: "emission list"

definition queue_full :: "pyqueue \<Rightarrow> bool" where
  "queue_full q = (0 < maxsize q \<and> maxsize q \<le> int (length (queue q)))"

definition queue_put :: "pyqueue \<Rightarrow> emission \<Rightarrow> real \<Rightarrow> (pyexc + pyqueue) \<times> real" where
  "queue_put q item timeout =
     (if queue_full q then (Inl QueueFull, timeout)
      else (Inr (q\<lparr>queue := queue q @ [item]\<rparr>), 0))"

text \<open>
  \<^verbatim>\<open>broadcast_event\<close>, lines 34 to 42 of \<^verbatim>\<open>app.py\<close>, over the list
  \<^verbatim>\<open>client_queues\<close>: the outcome, the queues afterwards and the time waited.
\<close>

fun broadcast_event :: "pyqueue list \<Rightarrow> string \<Rightarrow> pyval \<Rightarrow> outcome \<times> pyqueue list \<times> real" where
  "broadcast_event [] event_type data = (Normal, [], 0)"
| "broadcast_event (q # qs) event_type data =
     (case queue_put q (event_type, data) (1 / 10) of
        (Inr q', waited) \<Rightarrow>
          (case broadcast_event qs event_type data of
             (oc, qs', waited') \<Rightarrow> (oc, q' # qs', waited + waited'))
      | (Inl e, waited) \<Rightarrow>
          if e = QueueFull
          then (case broadcast_event qs event_type data of
                  (oc, qs', waited') \<Rightarrow> (oc, q # qs', waited + waited'))
          else (Raise e, q # qs, waited))"

subsection \<open>Health check\<close>

text \<open>
  The names that \<^verbatim>\<open>class WhaleWatch\<close> defines: its methods and the attributes
  that \<^verbatim>\<open>__init__\<close> and \<^verbatim>\<open>_reset_stats\<close> assign. The names every Python
  object inherits all start and end with two underscores.
\<close>

definition WhaleWatch_names :: "string list" where
  "WhaleWatch_names =
     [''__init__'', ''_reset_stats'', ''_fetch_price'', ''_price_loop'', ''_on_open'',
      ''_on_message'', ''_handle_unconfirmed_tx'', ''_handle_new_block'', ''_summary_loop'',
      ''update_threshold'', ''update_interval'', ''update_config'', ''_run_ws'', ''start'',
      ''stop'', ''threshold_btc'', ''summary_interval'', ''callback'', ''_lock'',
      ''_unconfirmed_count'', ''_total_value_sat'', ''_whale_count'', ''_price_usd'',
      ''_stop_event'']"

definition hasattr_WhaleWatch :: "string \<Rightarrow> bool" where
  "hasattr_WhaleWatch name = (name \<in> set WhaleWatch_names)"

text \<open>
  \<^verbatim>\<open>health_check\<close>, lines 150 to 160 of \<^verbatim>\<open>app.py\<close>: the status and the
  HTTP code. A \<^verbatim>\<open>WhaleWatch\<close> object is true. The class has no method
  \<^verbatim>\<open>is_running\<close>; what a call of one would give is the parameter \<open>is_running\<close>.
\<close>

definition health_check ::
  "(WhaleWatch \<Rightarrow> pyexc + pyval) \<Rightarrow> WhaleWatch option \<Rightarrow> pyexc + string \<times> int" where
  "health_check is_running watcher =
     (case (case watcher of
              Some w \<Rightarrow>
                if hasattr_WhaleWatch ''is_running''
                then py_bind (is_running w)
                       (\<lambda>r. Inr (if py_truthy r then ''healthy'' else ''degraded''))
                else Inr ''starting''
            | None \<Rightarrow> Inr ''starting'') of
        Inr status \<Rightarrow> Inr (status, 200)
      | Inl e \<Rightarrow> if is_Exception e then Inr (''error'', 500) else Inl e)"

section \<open>Notions of the specification\<close>

text \<open>\<^verbatim>\<open>d[key]\<close> on an event's data, \<open>None\<close> where the key is missing.\<close>

definition py_item :: "pyval \<Rightarrow> string \<Rightarrow> pyval option" where
  "py_item d k = (case d of PDict kvs \<Rightarrow> map_of kvs k | _ \<Rightarrow> None)"

text \<open>The values of the outputs that \<^verbatim>\<open>int()\<close> accepts, in order.\<close>

fun parsed_values :: "(string \<Rightarrow> int option) \<Rightarrow> pyval list \<Rightarrow> int list" where
  "parsed_values int_of_str [] = []"
| "parsed_values int_of_str (out # rest) =
     (case output_value int_of_str out of
        Inr n \<Rightarrow> n # parsed_values int_of_str rest
      | Inl e \<Rightarrow> parsed_values int_of_str rest)"

text \<open>
  The specification's reading of the sum: only the outputs whose value parses as a
  non-negative integer count.
\<close>

definition spec_nonneg_total :: "(string \<Rightarrow> int option) \<Rightarrow> pyval list \<Rightarrow> int" where
  "spec_nonneg_total int_of_str outs =
     sum_list (filter (\<lambda>n. 0 \<le> n) (parsed_values int_of_str outs))"

text \<open>The outputs of a transaction, as the loop of the handler walks them.\<close>

definition tx_outputs :: "pyval \<Rightarrow> pyval list" where
  "tx_outputs tx =
     (case py_bind (py_get tx ''out'' (PList [])) py_iter of Inl e \<Rightarrow> [] | Inr outs \<Rightarrow> outs)"

text \<open>
  The specification's notion of a transaction that counts: one with at least one
  parseable output value.
\<close>

definition has_parseable_output :: "(string \<Rightarrow> int option) \<Rightarrow> pyval \<Rightarrow> bool" where
  "has_parseable_output int_of_str tx = (parsed_values int_of_str (tx_outputs tx) \<noteq> [])"

text \<open>
  The transactions of a run that reach the critical section of the handler: those
  whose processing raises nothing before the lock.
\<close>

fun ingested :: "(string \<Rightarrow> int option) \<Rightarrow> action list \<Rightarrow> pyval list" where
  "ingested int_of_str [] = []"
| "ingested int_of_str (Utx tx # rest) =
     (case unconfirmed_tx_locals int_of_str tx of
        Inl e \<Rightarrow> ingested int_of_str rest
      | Inr l \<Rightarrow> tx # ingested int_of_str rest)"
| "ingested int_of_str (a # rest) = ingested int_of_str rest"

fun is_summary_cycle :: "action \<Rightarrow> bool" where
  "is_summary_cycle (SummaryCycle now) = True"
| "is_summary_cycle a = False"

text \<open>The invariant of the three counters.\<close>

definition whale_inv :: "WhaleWatch \<Rightarrow> bool" where
  "whale_inv s = (0 \<le> whale_count s \<and> whale_count s \<le> unconfirmed_count s)"

text \<open>
  A string parser for the examples: an optional sign and ASCII digits, on which it gives
  what \<^verbatim>\<open>int()\<close> gives; it rejects every other string.
\<close>

definition digit_of_char :: "char \<Rightarrow> int option" where
  "digit_of_char c = map_of (zip ''0123456789'' [0, 1, 2, 3, 4, 5, 6, 7, 8, 9]) c"

fun digits_to_int :: "string \<Rightarrow> int \<Rightarrow> int option" where
  "digits_to_int [] acc = Some acc"
| "digits_to_int (c # cs) acc =
     (case digit_of_char c of None \<Rightarrow> None | Some d \<Rightarrow> digits_to_int cs (10 * acc + d))"

definition ascii_int_of_str :: "string \<Rightarrow> int option" where
  "ascii_int_of_str s =
     (case s of
        [] \<Rightarrow> None
      | c # cs \<Rightarrow>
          if cs \<noteq> [] \<and> c = CHR ''-'' then map_option uminus (digits_to_int cs 0)
          else if cs \<noteq> [] \<and> c = CHR ''+'' then digits_to_int cs 0
          else digits_to_int s 0)"

text \<open>Callbacks for the examples: one that returns, one that raises.\<close>

definition quiet_callback :: callback_fn where
  "quiet_callback event_type event_data = Returns"

definition failing_callback :: callback_fn where
  "failing_callback event_type event_data = Raises (OtherException ''boom'')"

text \<open>
  An output that the loop of the handler can take: a dict whose value is not an infinite
  float. (On an output that is no dict \<^verbatim>\<open>out.get\<close> raises AttributeError and on an
  infinite float \<^verbatim>\<open>int\<close> raises OverflowError; the handler catches neither.)
\<close>

fun plain_output :: "pyval \<Rightarrow> bool" where
  "plain_output (PDict d) =
     (case map_of d ''value'' of
        Some (PFloat PosInf) \<Rightarrow> False
      | Some (PFloat NegInf) \<Rightarrow> False
      | _ \<Rightarrow> True)"
| "plain_output _ = False"

text \<open>The parsed output values of a list of transactions, in order.\<close>

fun parsed_values_of_txs :: "(string \<Rightarrow> int option) \<Rightarrow> pyval list \<Rightarrow> int list" where
  "parsed_values_of_txs int_of_str [] = []"
| "parsed_values_of_txs int_of_str (tx # rest) =
     parsed_values int_of_str (tx_outputs tx) @ parsed_values_of_txs int_of_str rest"

text \<open>
  Transactions and a run for the examples: one output with the given satoshi value; three
  transactions of 50, 150 and 100 BTC, with a change of the interval, a message that is no
  transaction and a price update between them.
\<close>

definition example_tx :: "string \<Rightarrow> int \<Rightarrow> pyval" where
  "example_tx h v =
     PDict [(''hash'', PStr h), (''time'', PInt 1700000000),
            (''out'', PList [PDict [(''addr'', PStr ''bc1q''), (''value'', PInt v)]])]"

definition example_run :: "action list" where
  "example_run =
     [Utx (example_tx ''a'' 5000000000), UpdateConfig None (Some 30), Utx (PInt 7),
      Utx (example_tx ''b'' 15000000000), PriceFetched (Some (Finite 2)),
      Utx (example_tx ''c'' 10000000000)]"

section \<open>Properties\<close>

subsection \<open>Float arithmetic\<close>

lemma bit_length_pos: "1 \<le> n \<Longrightarrow> 1 \<le> bit_length n \<and> 2 ^ nat (bit_length n - 1) \<le> n"
proof (induction n rule: bit_length.induct)
  case (1 n)
  show ?case
  proof (cases "n = 1")
    case True
    then show ?thesis by (simp add: bit_length.simps[of 1] bit_length.simps[of 0])
  next
    case False
    with "1.prems" have n2: "2 \<le> n" by simp
    then have h: "1 \<le> n div 2" by simp
    from n2 have "\<not> n \<le> 0" by simp
    from "1.IH"[OF this h] have ih1: "1 \<le> bit_length (n div 2)"
      and ih2: "2 ^ nat (bit_length (n div 2) - 1) \<le> n div 2" by simp_all
    have bl: "bit_length n = bit_length (n div 2) + 1"
      using n2 by (subst bit_length.simps) simp
    have "nat (bit_length n - 1) = Suc (nat (bit_length (n div 2) - 1))"
      using ih1 bl by simp
    then have "(2::int) ^ nat (bit_length n - 1) = 2 * 2 ^ nat (bit_length (n div 2) - 1)"
      by simp
    also have "\<dots> \<le> 2 * (n div 2)" using ih2 by simp
    also have "\<dots> \<le> n" by simp
    finally show ?thesis using ih1 bl by simp
  qed
qed

lemma pow2_pos: "0 < pow2 k"
  by (simp add: pow2_def)

lemma pow2_mono: "a \<le> b \<Longrightarrow> pow2 a \<le> pow2 b"
proof -
  assume ab: "a \<le> b"
  consider "0 \<le> a" | "a < 0" "0 \<le> b" | "b < 0" using ab by linarith
  then show ?thesis
  proof cases
    case 1
    with ab have "nat a \<le> nat b" by simp
    then have "(2::real) ^ nat a \<le> 2 ^ nat b" by (rule power_increasing) simp
    with 1 ab show ?thesis by (simp add: pow2_def)
  next
    case 2
    have "1 / (2::real) ^ nat (- a) \<le> 1" by simp
    also have "\<dots> \<le> 2 ^ nat b" by simp
    finally show ?thesis using 2 by (simp add: pow2_def)
  next
    case 3
    with ab have "nat (- b) \<le> nat (- a)" by simp
    then have "(2::real) ^ nat (- b) \<le> 2 ^ nat (- a)" by (rule power_increasing) simp
    then have "1 / (2::real) ^ nat (- a) \<le> 1 / 2 ^ nat (- b)"
      by (simp add: frac_le)
    with 3 ab show ?thesis by (simp add: pow2_def)
  qed
qed

lemma ilog2_ge_1:
  assumes "1 \<le> x"
  shows "0 \<le> ilog2 x" and "pow2 (ilog2 x) \<le> x"
proof -
  from assms have fl: "1 \<le> \<lfloor>x\<rfloor>" by simp
  from bit_length_pos[OF fl] have b1: "1 \<le> bit_length \<lfloor>x\<rfloor>"
    and b2: "2 ^ nat (bit_length \<lfloor>x\<rfloor> - 1) \<le> \<lfloor>x\<rfloor>" by simp_all
  from assms have e: "ilog2 x = bit_length \<lfloor>x\<rfloor> - 1" by (simp add: ilog2_def)
  with b1 show "0 \<le> ilog2 x" by simp
  from b2 have "real_of_int (2 ^ nat (bit_length \<lfloor>x\<rfloor> - 1)) \<le> real_of_int \<lfloor>x\<rfloor>"
    by (simp only: of_int_le_iff)
  also have "\<dots> \<le> x" by simp
  finally show "pow2 (ilog2 x) \<le> x" using b1 e by (simp add: pow2_def)
qed

lemma round_half_even_ge_1: "1 \<le> r \<Longrightarrow> 1 \<le> round_half_even r"
proof -
  assume "1 \<le> r"
  then have "1 \<le> \<lfloor>r\<rfloor>" by simp
  then show ?thesis by (simp add: round_half_even_def Let_def)
qed

lemma round_double_int_nonzero:
  assumes "n \<noteq> 0"
  shows "round_double (real_of_int n) \<noteq> 0"
proof -
  let ?x = "\<bar>real_of_int n\<bar>"
  from assms have "1 \<le> \<bar>n\<bar>" by simp
  then have "real_of_int 1 \<le> real_of_int \<bar>n\<bar>" by (simp only: of_int_le_iff)
  then have x1: "1 \<le> ?x" by simp
  let ?q = "pow2 (max (ilog2 ?x) (- 1022) - 52)"
  from ilog2_ge_1[OF x1] have e0: "0 \<le> ilog2 ?x" and ex: "pow2 (ilog2 ?x) \<le> ?x" by simp_all
  from e0 have "max (ilog2 ?x) (- 1022) - 52 \<le> ilog2 ?x" by simp
  from pow2_mono[OF this] ex have qx: "?q \<le> ?x" by simp
  have qpos: "0 < ?q" by (rule pow2_pos)
  from qx qpos have "1 \<le> ?x / ?q" by simp
  from round_half_even_ge_1[OF this] have "round_half_even (?x / ?q) \<noteq> 0" by simp
  moreover from qpos have "?q \<noteq> 0" by simp
  ultimately show ?thesis using assms by (simp add: round_double_def Let_def sgn_if)
qed

lemma fl_round_not_nan: "fl_round neg x \<noteq> NaN"
  by (simp add: fl_round_def Let_def)

lemma truediv_1e8:
  "py_truediv_int_float n (Finite 100000000) =
     (if DBL_OVERFLOW \<le> \<bar>n\<bar> then Inl OverflowError
      else Inr (fl_round (round_double (real_of_int n) < 0)
                  (round_double (real_of_int n) / 100000000)))"
  by (simp add: py_truediv_int_float_def py_float_of_int_def py_bind_def fl_truediv_def
      fl_is_zero_def fl_is_inf_def)

lemma truediv_float_int:
  assumes "f = Finite x \<or> f = NegZero"
  shows "py_truediv_float_int f n =
     (if DBL_OVERFLOW \<le> \<bar>n\<bar> then Inl OverflowError
      else if n = 0 then Inl ZeroDivisionError
      else Inr (fl_round (fl_negative f \<noteq> (round_double (real_of_int n) < 0))
                  (fl_value f / round_double (real_of_int n))))"
  using assms round_double_int_nonzero[of n]
  by (auto simp: py_truediv_float_int_def py_float_of_int_def py_bind_def fl_truediv_def
      fl_is_zero_def fl_is_inf_def round_double_def)

lemma round_half_even_bounds:
  assumes "0 \<le> r"
  shows "0 \<le> round_half_even r" and "real_of_int (round_half_even r) \<le> r + 1"
proof -
  from assms have f0: "0 \<le> \<lfloor>r\<rfloor>" by simp
  have f1: "real_of_int \<lfloor>r\<rfloor> \<le> r" by simp
  from f0 show "0 \<le> round_half_even r" by (simp add: round_half_even_def Let_def)
  from f1 have "real_of_int (\<lfloor>r\<rfloor> + 1) \<le> r + 1" by simp
  with f1 show "real_of_int (round_half_even r) \<le> r + 1"
    unfolding round_half_even_def Let_def by (auto simp del: of_int_add)
qed

lemma ilog2_lt_1:
  assumes "0 < x" and "x < 1"
  shows "ilog2 x \<le> 0"
proof -
  from assms have "1 \<le> 1 / x" by simp
  then have "1 \<le> \<lfloor>1 / x\<rfloor>" by simp
  from bit_length_pos[OF this] have "1 \<le> bit_length \<lfloor>1 / x\<rfloor>" by simp
  with assms show ?thesis by (simp add: ilog2_def Let_def)
qed

lemma double_spacing_le:
  assumes "0 < x"
  shows "pow2 (max (ilog2 x) (- 1022) - 52) \<le> max x 1"
proof (cases "1 \<le> x")
  case True
  from ilog2_ge_1[OF True] have e0: "0 \<le> ilog2 x" and ex: "pow2 (ilog2 x) \<le> x" by simp_all
  from e0 have "max (ilog2 x) (- 1022) - 52 \<le> ilog2 x" by simp
  from pow2_mono[OF this] ex True show ?thesis by simp
next
  case False
  with assms ilog2_lt_1[of x] have "ilog2 x \<le> 0" by simp
  then have "max (ilog2 x) (- 1022) - 52 \<le> 0" by simp
  from pow2_mono[OF this] have "pow2 (max (ilog2 x) (- 1022) - 52) \<le> 1"
    by (simp add: pow2_def)
  then show ?thesis by simp
qed

lemma round_double_bound: "\<bar>round_double x\<bar> \<le> 2 * \<bar>x\<bar> + 1"
proof (cases "x = 0")
  case True
  then show ?thesis by (simp add: round_double_def)
next
  case False
  let ?a = "\<bar>x\<bar>"
  let ?q = "pow2 (max (ilog2 ?a) (- 1022) - 52)"
  let ?m = "round_half_even (?a / ?q)"
  from False have a: "0 < ?a" by simp
  have q: "0 < ?q" by (rule pow2_pos)
  from a q have r: "0 \<le> ?a / ?q" by simp
  from round_half_even_bounds[OF r] have m0: "0 \<le> ?m"
    and m1: "real_of_int ?m \<le> ?a / ?q + 1" by simp_all
  from m1 q have "real_of_int ?m * ?q \<le> (?a / ?q + 1) * ?q"
    by (simp only: mult_le_cancel_right_pos)
  also from q have "\<dots> = ?a + ?q" by (simp add: field_simps)
  also from double_spacing_le[OF a] have "\<dots> \<le> ?a + max ?a 1" by simp
  also have "\<dots> \<le> 2 * ?a + 1" by simp
  finally have up: "real_of_int ?m * ?q \<le> 2 * ?a + 1" .
  from m0 q have lo: "0 \<le> real_of_int ?m * ?q" by simp
  have "\<bar>round_double x\<bar> = \<bar>sgn x\<bar> * \<bar>real_of_int ?m * ?q\<bar>"
    using False by (simp add: round_double_def Let_def abs_mult)
  also have "\<dots> = real_of_int ?m * ?q" using False lo by (simp add: abs_sgn_eq)
  finally show ?thesis using up by simp
qed

lemma total_btc_finite:
  assumes "py_truediv_int_float n (Finite 100000000) = Inr tb"
  shows "(\<exists>y. tb = Finite y) \<or> tb = NegZero"
proof -
  from assms have n: "\<bar>n\<bar> < DBL_OVERFLOW"
    and tb: "tb = fl_round (round_double (real_of_int n) < 0)
                    (round_double (real_of_int n) / 100000000)"
    by (simp_all add: truediv_1e8 split: if_splits)
  let ?y = "round_double (real_of_int n) / 100000000"
  from n have "\<bar>n\<bar> \<le> 2 ^ 1024" by (simp add: DBL_OVERFLOW_def)
  then have "real_of_int \<bar>n\<bar> \<le> real_of_int (2 ^ 1024)" by (simp only: of_int_le_iff)
  then have n': "\<bar>real_of_int n\<bar> \<le> 2 ^ 1024" by simp
  from round_double_bound[of "real_of_int n"] n'
  have "\<bar>round_double (real_of_int n)\<bar> \<le> 2 * 2 ^ 1024 + 1" by linarith
  then have y: "\<bar>?y\<bar> \<le> (2 * 2 ^ 1024 + 1) / 100000000" by (simp add: divide_right_mono)
  from round_double_bound[of ?y] y
  have "\<bar>round_double ?y\<bar> \<le> 2 * ((2 * 2 ^ 1024 + 1) / 100000000) + 1" by linarith
  also have "\<dots> < 2 ^ 1024" by simp
  finally have "\<not> 2 ^ 1024 \<le> \<bar>round_double ?y\<bar>" by simp
  with tb show ?thesis by (simp add: fl_round_def Let_def)
qed

lemma fl_mul_zero_finite:
  assumes "(\<exists>y. tb = Finite y) \<or> tb = NegZero"
  shows "fl_is_zero (fl_mul (Finite 0) tb)"
  using assms
  by (auto simp: fl_mul_def fl_is_zero_def fl_is_inf_def fl_round_def round_double_def)

lemma round_half_even_of_int: "round_half_even (real_of_int m) = m"
  by (simp add: round_half_even_def)

lemma round_double_int_exact:
  assumes "\<bar>n\<bar> < 2 ^ 53"
  shows "round_double (real_of_int n) = real_of_int n"
proof (cases "n = 0")
  case True
  then show ?thesis by (simp add: round_double_def)
next
  case False
  let ?x = "\<bar>real_of_int n\<bar>"
  let ?e = "ilog2 ?x"
  from False have "1 \<le> \<bar>n\<bar>" by simp
  then have "real_of_int 1 \<le> real_of_int \<bar>n\<bar>" by (simp only: of_int_le_iff)
  then have x1: "1 \<le> ?x" by simp
  from assms have "real_of_int \<bar>n\<bar> < real_of_int (2 ^ 53)" by (simp only: of_int_less_iff)
  then have x53: "?x < 2 ^ 53" by simp
  from ilog2_ge_1[OF x1] have e0: "0 \<le> ?e" and ex: "pow2 ?e \<le> ?x" by simp_all
  have e52: "?e \<le> 52"
  proof (rule ccontr)
    assume "\<not> ?e \<le> 52"
    then have "53 \<le> ?e" by simp
    from pow2_mono[OF this] have "2 ^ 53 \<le> pow2 ?e" by (simp add: pow2_def)
    with ex x53 show False by simp
  qed
  let ?k = "nat (52 - ?e)"
  from e0 e52 have q: "pow2 (max ?e (- 1022) - 52) = 1 / 2 ^ ?k"
    by (cases "?e = 52") (simp_all add: pow2_def)
  have "?x / (1 / 2 ^ ?k) = real_of_int (\<bar>n\<bar> * 2 ^ ?k)" by simp
  then have m: "round_half_even (?x / (1 / 2 ^ ?k)) = \<bar>n\<bar> * 2 ^ ?k"
    by (simp only: round_half_even_of_int)
  have "round_double (real_of_int n) =
      sgn (real_of_int n) * (real_of_int (\<bar>n\<bar> * 2 ^ ?k) * (1 / 2 ^ ?k))"
    using False q m by (simp add: round_double_def Let_def)
  also have "\<dots> = sgn (real_of_int n) * \<bar>real_of_int n\<bar>" by simp
  also have "\<dots> = real_of_int n" by (simp add: sgn_if)
  finally show ?thesis .
qed

lemma round_double_numeral:
  "numeral k < (2::int) ^ 53 \<Longrightarrow> round_double (numeral k) = numeral k"
  using round_double_int_exact[of "numeral k"] by simp

lemma round_double_0: "round_double 0 = 0"
  by (simp add: round_double_def)

lemma round_double_1: "round_double 1 = 1"
  using round_double_int_exact[of 1] by simp

lemmas float_eval =
  py_truediv_int_float_def py_truediv_float_int_def py_float_of_int_def py_bind_def
  fl_truediv_def fl_mul_def fl_round_def fl_is_zero_def fl_is_inf_def DBL_OVERFLOW_def
  round_double_numeral round_double_0 round_double_1 Let_def

subsection \<open>The summary cycle in one piece\<close>

lemma summary_cycle_unfold:
  "summary_cycle s now =
     (let count = unconfirmed_count s;
          total_sat = total_value_sat s;
          whales = whale_count s;
          s' = reset_stats s
      in if count = 0 then (Normal, s', [])
         else
           (case py_bind (py_truediv_int_float total_sat (Finite 100000000)) (\<lambda>total_btc.
                 py_bind (py_truediv_float_int total_btc count) (\<lambda>avg_btc.
                 Inr (summary_event_data count total_btc avg_btc
                        (price_or_zero (price_usd s')) whales now))) of
              Inl e \<Rightarrow> (Raise e, s', [])
            | Inr event_data \<Rightarrow>
                (case callback s' of
                   None \<Rightarrow> (Normal, s', [])
                 | Some cb \<Rightarrow>
                     (invoke_callback cb ''summary'' event_data, s',
                      [(''summary'', event_data)]))))"
  by (simp add: summary_cycle_def summary_snapshot_def summary_emit_def Let_def
      split: sum.splits option.splits)

subsection \<open>The total of a transaction\<close>

lemma py_int_cases:
  "py_int P v = Inl e \<Longrightarrow> e = TypeError \<or> e = ValueError \<or> (e = OverflowError \<and> (v = PFloat PosInf \<or> v = PFloat NegInf))"
  by (induction P v rule: py_int.induct) (auto split: option.splits)

lemma plain_output_value:
  "plain_output out \<Longrightarrow> output_value P out = Inl e \<Longrightarrow> e = TypeError \<or> e = ValueError"
  apply (cases out; simp add: output_value_def py_bind_def)
  apply (auto dest!: py_int_cases split: option.splits pyval.splits pyfloat.splits)
  done

lemma sum_outputs_total:
  "list_all plain_output outs \<Longrightarrow>
   sum_outputs P outs acc = Inr (acc + sum_list (parsed_values P outs))"
proof (induction outs arbitrary: acc)
  case Nil
  then show ?case by simp
next
  case (Cons out rest)
  then have p: "plain_output out" and r: "list_all plain_output rest" by simp_all
  show ?case
  proof (cases "output_value P out")
    case (Inl e)
    with p have "e = TypeError \<or> e = ValueError" using plain_output_value by blast
    with Inl Cons.IH[OF r] show ?thesis by auto
  next
    case (Inr n)
    with Cons.IH[OF r, of "acc + n"] show ?thesis by (simp add: add.assoc)
  qed
qed

lemma sum_outputs_result:
  "sum_outputs P outs acc = Inr t \<Longrightarrow> t = acc + sum_list (parsed_values P outs)"
proof (induction outs arbitrary: acc)
  case Nil
  then show ?case by simp
next
  case (Cons out rest)
  show ?case
  proof (cases "output_value P out")
    case (Inl e)
    with Cons.prems have "sum_outputs P rest acc = Inr t" by (simp split: if_splits)
    from Cons.IH[OF this] Inl show ?thesis by simp
  next
    case (Inr n)
    with Cons.prems have "sum_outputs P rest (acc + n) = Inr t" by simp
    from Cons.IH[OF this] Inr show ?thesis by simp
  qed
qed


lemma locals_elim:
  "unconfirmed_tx_locals P tx = Inr (ts, tb, fa, tm, h) \<Longrightarrow>
   \<exists>outputs outs. py_get tx ''out'' (PList []) = Inr outputs \<and> py_iter outputs = Inr outs \<and>
     sum_outputs P outs 0 = Inr ts \<and>
     py_truediv_int_float ts (Finite 100000000) = Inr tb \<and>
     first_addr_of outputs = Inr fa \<and>
     py_get tx ''time'' PNone = Inr tm \<and> py_get tx ''hash'' PNone = Inr h"
  by (auto simp: unconfirmed_tx_locals_def py_bind_def split: sum.splits)

lemma locals_total:
  assumes "unconfirmed_tx_locals P tx = Inr (ts, tb, fa, tm, h)"
  shows "ts = sum_list (parsed_values P (tx_outputs tx))"
    and "py_truediv_int_float ts (Finite 100000000) = Inr tb"
    and "\<bar>ts\<bar> < DBL_OVERFLOW"
    and "tb \<noteq> NaN"
proof -
  from locals_elim[OF assms] obtain outputs outs where
    g: "py_get tx ''out'' (PList []) = Inr outputs" and i: "py_iter outputs = Inr outs"
    and su: "sum_outputs P outs 0 = Inr ts"
    and d: "py_truediv_int_float ts (Finite 100000000) = Inr tb" by blast
  from g i have "tx_outputs tx = outs" by (simp add: tx_outputs_def py_bind_def)
  with sum_outputs_result[OF su] show "ts = sum_list (parsed_values P (tx_outputs tx))" by simp
  from d show "py_truediv_int_float ts (Finite 100000000) = Inr tb" .
  from d show "\<bar>ts\<bar> < DBL_OVERFLOW"
    by (simp add: truediv_1e8 split: if_splits)
  from d show "tb \<noteq> NaN"
    by (auto simp: truediv_1e8 fl_round_not_nan split: if_splits)
qed

lemma record_unconfirmed_tx_state:
  "fst (snd (record_unconfirmed_tx s (ts, tb, fa, tm, h))) =
     s\<lparr>unconfirmed_count := unconfirmed_count s + 1,
       total_value_sat := total_value_sat s + ts,
       whale_count := whale_count s + (if fl_ge tb (threshold_btc s) then 1 else 0)\<rparr>"
  by (simp add: record_unconfirmed_tx_def Let_def split: option.splits)

lemma first_addr_of_plain:
  "list_all plain_output outs \<Longrightarrow> \<exists>fa. first_addr_of (PList outs) = Inr fa"
  by (cases outs; cases "hd outs") (auto simp: first_addr_of_def py_bind_def)

text \<open>
  C3 (amended). The satoshi total of a transaction is the sum of \<^verbatim>\<open>int(value)\<close> over
  exactly those outputs whose value \<^verbatim>\<open>int()\<close> converts, negative results included;
  an output whose value \<^verbatim>\<open>int()\<close> rejects with TypeError or ValueError is skipped, and
  the transaction is still processed with the remaining outputs: it is counted and its
  total is added to the cumulative value. This holds for a transaction whose outputs are a
  list of dicts without infinite values and whose total is in the range of a float.
\<close>

theorem tx_total_sums_convertible_outputs:
  assumes "py_get tx ''out'' (PList []) = Inr (PList outs)"
      and "list_all plain_output outs"
      and "\<bar>sum_list (parsed_values P outs)\<bar> < DBL_OVERFLOW"
  shows "sum_outputs P outs 0 = Inr (sum_list (parsed_values P outs)) \<and>
         (\<exists>total_btc first_addr timestamp tx_hash.
            py_truediv_int_float (sum_list (parsed_values P outs)) (Finite 100000000) =
              Inr total_btc \<and>
            unconfirmed_tx_locals P tx =
              Inr (sum_list (parsed_values P outs), total_btc,
                   first_addr, timestamp, tx_hash)) \<and>
         total_value_sat (fst (snd (handle_unconfirmed_tx P s tx))) =
           total_value_sat s + sum_list (parsed_values P outs) \<and>
         unconfirmed_count (fst (snd (handle_unconfirmed_tx P s tx))) = unconfirmed_count s + 1"
proof -
  let ?S = "sum_list (parsed_values P outs)"
  have su: "sum_outputs P outs 0 = Inr ?S"
    using sum_outputs_total[OF assms(2), of P 0] by simp
  from assms(1) obtain d where tx: "tx = PDict d" by (cases tx) simp_all
  from first_addr_of_plain[OF assms(2)] obtain fa where fa: "first_addr_of (PList outs) = Inr fa" ..
  from assms(3) obtain tb where tb: "py_truediv_int_float ?S (Finite 100000000) = Inr tb"
    by (simp add: truediv_1e8)
  have loc: "unconfirmed_tx_locals P tx =
      Inr (?S, tb, fa,
           (case map_of d ''time'' of None \<Rightarrow> PNone | Some v \<Rightarrow> v),
           (case map_of d ''hash'' of None \<Rightarrow> PNone | Some v \<Rightarrow> v))"
    using assms(1) su fa tb
    by (simp add: unconfirmed_tx_locals_def py_bind_def tx)
  show ?thesis
    using su loc tb by (simp add: handle_unconfirmed_tx_def record_unconfirmed_tx_state)
qed

lemma ascii_int_of_str_x: "ascii_int_of_str ''x'' = None"
  by (simp add: ascii_int_of_str_def digit_of_char_def)

lemma ascii_int_of_str_digits: "ascii_int_of_str ''-42'' = Some (- 42)"
  by (simp add: ascii_int_of_str_def digit_of_char_def)

text \<open>
  The example of the specification: the outputs \<^verbatim>\<open>[{value: "x"}, {value: 500000000}]\<close>
  give the total 500000000, the first output being skipped.
\<close>

theorem tx_total_sums_convertible_outputs_witness:
  "py_get (PDict [(''out'', PList [PDict [(''value'', PStr ''x'')], PDict [(''value'', PInt 500000000)]])])
     ''out'' (PList []) =
     Inr (PList [PDict [(''value'', PStr ''x'')], PDict [(''value'', PInt 500000000)]]) \<and>
   list_all plain_output [PDict [(''value'', PStr ''x'')], PDict [(''value'', PInt 500000000)]] \<and>
   \<bar>sum_list (parsed_values ascii_int_of_str
        [PDict [(''value'', PStr ''x'')], PDict [(''value'', PInt 500000000)]])\<bar> < DBL_OVERFLOW \<and>
   parsed_values ascii_int_of_str
        [PDict [(''value'', PStr ''x'')], PDict [(''value'', PInt 500000000)]] = [500000000] \<and>
   sum_outputs ascii_int_of_str [PDict [(''value'', PStr ''x'')], PDict [(''value'', PInt 500000000)]] 0 =
     Inr 500000000 \<and>
   total_value_sat (fst (snd (handle_unconfirmed_tx ascii_int_of_str
       (WhaleWatch_init (Finite 100) 60 None)
       (PDict [(''out'', PList [PDict [(''value'', PStr ''x'')], PDict [(''value'', PInt 500000000)]])])))) =
     500000000"
proof -
  have pv: "parsed_values ascii_int_of_str
        [PDict [(''value'', PStr ''x'')], PDict [(''value'', PInt 500000000)]] = [500000000]"
    by (simp add: output_value_def py_bind_def ascii_int_of_str_x)
  have h1: "py_get (PDict [(''out'', PList [PDict [(''value'', PStr ''x'')], PDict [(''value'', PInt 500000000)]])])
     ''out'' (PList []) =
     Inr (PList [PDict [(''value'', PStr ''x'')], PDict [(''value'', PInt 500000000)]])"
    by simp
  have h2: "list_all plain_output [PDict [(''value'', PStr ''x'')], PDict [(''value'', PInt 500000000)]]"
    by simp
  have h3: "\<bar>sum_list (parsed_values ascii_int_of_str
        [PDict [(''value'', PStr ''x'')], PDict [(''value'', PInt 500000000)]])\<bar> < DBL_OVERFLOW"
    unfolding pv by (simp add: DBL_OVERFLOW_def)
  show ?thesis
    using tx_total_sums_convertible_outputs[OF h1 h2 h3, of "WhaleWatch_init (Finite 100) 60 None"] h1 h2 h3 pv
    by (simp add: WhaleWatch_init_def output_value_def py_bind_def ascii_int_of_str_x)
qed

text \<open>
  C3 as stated fails: an output with the value \<open>-5\<close> is not skipped. The handler's total
  of the two outputs \<open>-5\<close> and \<open>10\<close> is \<open>5\<close>, the sum of the non-negative values is
  \<open>10\<close>.
\<close>

lemma five_sat_in_btc:
  "py_truediv_int_float 5 (Finite 100000000) =
     Inr (Finite (944473296573929 / 18889465931478580854784))"
  by code_simp

theorem negative_output_counterexample:
  "sum_outputs ascii_int_of_str [PDict [(''value'', PInt (- 5))], PDict [(''value'', PInt 10)]] 0 = Inr 5 \<and>
   spec_nonneg_total ascii_int_of_str [PDict [(''value'', PInt (- 5))], PDict [(''value'', PInt 10)]] = 10 \<and>
   unconfirmed_tx_locals ascii_int_of_str
     (PDict [(''out'', PList [PDict [(''value'', PInt (- 5))], PDict [(''value'', PInt 10)]])]) =
     Inr (5, Finite (944473296573929 / 18889465931478580854784), PNone, PNone, PNone)"
  by (simp add: spec_nonneg_total_def output_value_def py_bind_def unconfirmed_tx_locals_def
      five_sat_in_btc first_addr_of_def)

subsection \<open>The state after each operation\<close>

lemma handle_unconfirmed_tx_state:
  "fst (snd (handle_unconfirmed_tx P s tx)) =
     (case unconfirmed_tx_locals P tx of
        Inl e \<Rightarrow> s
      | Inr l \<Rightarrow>
          s\<lparr>unconfirmed_count := unconfirmed_count s + 1,
            total_value_sat := total_value_sat s + fst l,
            whale_count := whale_count s +
              (if fl_ge (fst (snd l)) (threshold_btc s) then 1 else 0)\<rparr>)"
  by (cases "unconfirmed_tx_locals P tx")
     (auto simp: handle_unconfirmed_tx_def record_unconfirmed_tx_state)

lemma summary_cycle_state: "fst (snd (summary_cycle s now)) = reset_stats s"
  by (simp add: summary_cycle_unfold Let_def split: sum.splits option.splits)

lemma handle_new_block_state: "fst (snd (handle_new_block s block now)) = s"
  by (simp add: handle_new_block_def split: sum.splits option.splits)

lemma update_config_counters:
  "unconfirmed_count (update_config s th iv) = unconfirmed_count s"
  "total_value_sat (update_config s th iv) = total_value_sat s"
  "whale_count (update_config s th iv) = whale_count s"
  by (simp_all add: update_config_def split: option.splits)

lemma price_loop_step_counters:
  "unconfirmed_count (price_loop_step s f) = unconfirmed_count s"
  "total_value_sat (price_loop_step s f) = total_value_sat s"
  "whale_count (price_loop_step s f) = whale_count s"
  by (simp_all add: price_loop_step_def split: option.splits)

subsection \<open>The invariant of the counters\<close>

lemma step_whale_inv: "whale_inv s \<Longrightarrow> whale_inv (fst (snd (step P s a)))"
  by (cases a)
     (auto simp: whale_inv_def handle_unconfirmed_tx_state summary_cycle_state
        handle_new_block_state reset_stats_def update_config_counters
        price_loop_step_counters update_threshold_def update_interval_def
        split: sum.splits)

lemma run_Cons_fst: "fst (run P s (a # rest)) = fst (run P (fst (snd (step P s a))) rest)"
  by (simp split: prod.splits)

lemma run_whale_inv: "whale_inv s \<Longrightarrow> whale_inv (fst (run P s acts))"
proof (induction acts arbitrary: s)
  case Nil
  then show ?case by simp
next
  case (Cons a rest)
  from step_whale_inv[OF Cons.prems] have "whale_inv (fst (snd (step P s a)))" .
  from Cons.IH[OF this] show ?case by (simp only: run_Cons_fst)
qed

lemma init_whale_inv: "whale_inv (WhaleWatch_init th iv cb)"
  by (simp add: whale_inv_def WhaleWatch_init_def)

subsection \<open>The counters of an interval\<close>

lemma step_counters:
  "\<not> is_summary_cycle a \<Longrightarrow>
   unconfirmed_count (fst (snd (step P s a))) =
     unconfirmed_count s + int (length (ingested P [a])) \<and>
   total_value_sat (fst (snd (step P s a))) =
     total_value_sat s + sum_list (parsed_values_of_txs P (ingested P [a]))"
proof (cases a)
  case (Utx tx)
  show ?thesis
  proof (cases "unconfirmed_tx_locals P tx")
    case (Inl e)
    with Utx show ?thesis by (simp add: handle_unconfirmed_tx_state)
  next
    case (Inr l)
    obtain ts tb fa tm h where l: "l = (ts, tb, fa, tm, h)" by (cases l) auto
    from locals_total(1)[OF Inr[unfolded l]] Inr Utx l show ?thesis
      by (simp add: handle_unconfirmed_tx_state)
  qed
qed (simp_all add: handle_new_block_state update_config_counters price_loop_step_counters
       update_threshold_def update_interval_def)

lemma ingested_Cons: "ingested P (a # rest) = ingested P [a] @ ingested P rest"
  by (cases a) (auto split: sum.splits)

lemma parsed_values_of_txs_append:
  "parsed_values_of_txs P (xs @ ys) = parsed_values_of_txs P xs @ parsed_values_of_txs P ys"
  by (induction xs) auto

lemma run_counters:
  "\<not> list_ex is_summary_cycle acts \<Longrightarrow>
   unconfirmed_count (fst (run P s acts)) = unconfirmed_count s + int (length (ingested P acts)) \<and>
   total_value_sat (fst (run P s acts)) =
     total_value_sat s + sum_list (parsed_values_of_txs P (ingested P acts))"
proof (induction acts arbitrary: s)
  case Nil
  then show ?case by simp
next
  case (Cons a rest)
  then have a: "\<not> is_summary_cycle a" and r: "\<not> list_ex is_summary_cycle rest" by simp_all
  show ?case
    unfolding run_Cons_fst
    using step_counters[OF a, of P s] Cons.IH[OF r, of "fst (snd (step P s a))"]
    by (subst (1 2) ingested_Cons) (simp add: parsed_values_of_txs_append)
qed

lemma truediv_float_int_returns:
  assumes "n \<noteq> 0" and "\<bar>n\<bar> < DBL_OVERFLOW"
  shows "\<exists>r. py_truediv_float_int f n = Inr r"
  using assms round_double_int_nonzero[of n]
  by (simp add: py_truediv_float_int_def py_float_of_int_def py_bind_def fl_truediv_def
      fl_is_zero_def)

lemma summary_cycle_emission:
  assumes "(t, d) \<in> set (snd (snd (summary_cycle s now)))"
  shows "t = ''summary''"
    and "unconfirmed_count s \<noteq> 0"
    and "callback s \<noteq> None"
    and "\<exists>total_btc avg_btc.
           py_truediv_int_float (total_value_sat s) (Finite 100000000) = Inr total_btc \<and>
           py_truediv_float_int total_btc (unconfirmed_count s) = Inr avg_btc \<and>
           d = summary_event_data (unconfirmed_count s) total_btc avg_btc
                 (price_or_zero (price_usd s)) (whale_count s) now"
  using assms
  by (auto simp: summary_cycle_unfold Let_def py_bind_def reset_stats_def
      split: if_splits sum.splits option.splits)

text \<open>The floats of the examples.\<close>

lemma example_floats:
  "py_truediv_int_float 0 (Finite 100000000) = Inr (Finite 0)"
  "py_truediv_int_float 5000000000 (Finite 100000000) = Inr (Finite 50)"
  "py_truediv_int_float 10000000000 (Finite 100000000) = Inr (Finite 100)"
  "py_truediv_int_float 15000000000 (Finite 100000000) = Inr (Finite 150)"
  "py_truediv_int_float 30000000000 (Finite 100000000) = Inr (Finite 300)"
  "py_truediv_float_int (Finite 0) 1 = Inr (Finite 0)"
  "py_truediv_float_int (Finite 300) 3 = Inr (Finite 100)"
  "fl_mul (Finite 0) (Finite 0) = Finite 0"
  "fl_mul (Finite 0) (Finite 100) = Finite 0"
  "fl_mul (Finite 2) (Finite 100) = Finite 200"
  "fl_mul (Finite 300) (Finite 2) = Finite 600"
  "fl_mul (Finite 100) (Finite 2) = Finite 200"
  "fl_mul (Finite 300) (Finite 4) = Finite 1200"
  "fl_mul (Finite 100) (Finite 4) = Finite 400"
  by (simp_all add: float_eval)

text \<open>An int beyond \<open>2 ^ 53\<close> is rounded before it is divided.\<close>

lemma example_rounded_float:
  "py_truediv_int_float 13421772799999999 (Finite 100000000) = Inr (Finite 134217728)"
  by code_simp

lemma example_comparisons:
  "fl_ge (Finite 100) (Finite 100)"
  "fl_ge (Finite 150) (Finite 100)"
  "\<not> fl_ge (Finite 50) (Finite 100)"
  "\<not> fl_ge (Finite 100) (Finite 200)"
  "fl_ge (Finite 100) (Finite 50)"
  "fl_ge (Finite 134217728) (Finite 134217728)"
  by (simp_all add: fl_ge_def)

lemma example_tx_locals:
  "unconfirmed_tx_locals P (example_tx h v) =
     py_bind (py_truediv_int_float v (Finite 100000000))
       (\<lambda>total_btc. Inr (v, total_btc, PStr ''bc1q'', PInt 1700000000, PStr h))"
  by (simp add: unconfirmed_tx_locals_def py_bind_def output_value_def first_addr_of_def
      example_tx_def split: sum.splits)

lemma example_tx_outputs:
  "parsed_values P (tx_outputs (example_tx h v)) = [v]"
  by (simp add: tx_outputs_def py_bind_def output_value_def example_tx_def)

lemma int_tx_locals: "unconfirmed_tx_locals P (PInt n) = Inl AttributeError"
  by (simp add: unconfirmed_tx_locals_def py_bind_def)

text \<open>
  C9. After any sequence of operations on a new watcher (transactions, blocks, summary
  cycles, configuration and price updates) the whale count lies between 0 and the
  transaction count, and every single operation preserves this.
\<close>

theorem whale_count_bounded:
  "whale_inv (fst (run P (WhaleWatch_init threshold interval cb) acts)) \<and>
   (whale_inv s \<longrightarrow> whale_inv (fst (snd (step P s a))))"
  using run_whale_inv[OF init_whale_inv] step_whale_inv by blast

text \<open>One whale transaction on a new watcher: both counters become 1.\<close>

theorem whale_count_bounded_witness:
  "whale_inv (WhaleWatch_init (Finite 100) 60 None) \<and>
   whale_inv (fst (snd (step ascii_int_of_str (WhaleWatch_init (Finite 100) 60 None)
      (Utx (example_tx ''h'' 15000000000))))) \<and>
   whale_count (fst (snd (step ascii_int_of_str (WhaleWatch_init (Finite 100) 60 None)
      (Utx (example_tx ''h'' 15000000000))))) = 1 \<and>
   unconfirmed_count (fst (snd (step ascii_int_of_str (WhaleWatch_init (Finite 100) 60 None)
      (Utx (example_tx ''h'' 15000000000))))) = 1"
  using whale_count_bounded[of ascii_int_of_str "Finite 100" 60 None "[]"
      "WhaleWatch_init (Finite 100) 60 None" "Utx (example_tx ''h'' 15000000000)"]
  by (simp add: handle_unconfirmed_tx_state example_tx_locals example_floats
      example_comparisons py_bind_def WhaleWatch_init_def)

lemma summary_of_run:
  assumes zero: "unconfirmed_count start = 0" "total_value_sat start = 0"
      and acts: "\<not> list_ex is_summary_cycle acts"
      and em: "(t, d) \<in> set (snd (snd (summary_cycle (fst (run P start acts)) now)))"
  shows "t = ''summary'' \<and>
         py_item d ''count'' = Some (PInt (int (length (ingested P acts)))) \<and>
         (\<exists>total_btc.
            py_truediv_int_float (sum_list (parsed_values_of_txs P (ingested P acts)))
              (Finite 100000000) = Inr total_btc \<and>
            py_item d ''total_btc'' = Some (PFloat total_btc))"
proof -
  from summary_cycle_emission(4)[OF em] obtain tb ab where
    tb: "py_truediv_int_float (total_value_sat (fst (run P start acts))) (Finite 100000000) = Inr tb"
    and d: "d = summary_event_data (unconfirmed_count (fst (run P start acts))) tb ab
          (price_or_zero (price_usd (fst (run P start acts))))
          (whale_count (fst (run P start acts))) now"
    by blast
  from run_counters[OF acts, of P start] zero
  have c: "unconfirmed_count (fst (run P start acts)) = int (length (ingested P acts))"
    and v: "total_value_sat (fst (run P start acts)) =
        sum_list (parsed_values_of_txs P (ingested P acts))" by simp_all
  from d c have "py_item d ''count'' = Some (PInt (int (length (ingested P acts))))"
    by (simp add: summary_event_data_def py_item_def)
  moreover from d have "py_item d ''total_btc'' = Some (PFloat tb)"
    by (simp add: summary_event_data_def py_item_def)
  ultimately show ?thesis using summary_cycle_emission(1)[OF em] tb v by auto
qed

text \<open>
  C1 (amended). Start right after a summary cycle (or at a new watcher) and let any
  operations but summary cycles follow. Every event of the next summary cycle is a
  summary whose count is the number of transactions that reached the critical section of
  the handler, whether or not any of their output values is parseable, and whose total
  is the float that the division by \<^verbatim>\<open>1e8\<close> gives for the sum of all parsed
  output values of those transactions: the sum is the exact integer, and the division
  converts it to a float and divides, rounding each time.
\<close>

theorem summary_counts_every_ingested_tx:
  assumes "start = fst (snd (summary_cycle s0 now0)) \<or> start = WhaleWatch_init threshold interval cb"
      and "\<not> list_ex is_summary_cycle acts"
      and "(t, d) \<in> set (snd (snd (summary_cycle (fst (run P start acts)) now)))"
  shows "t = ''summary'' \<and>
         py_item d ''count'' = Some (PInt (int (length (ingested P acts)))) \<and>
         (\<exists>total_btc.
            py_truediv_int_float (sum_list (parsed_values_of_txs P (ingested P acts)))
              (Finite 100000000) = Inr total_btc \<and>
            py_item d ''total_btc'' = Some (PFloat total_btc))"
proof -
  from assms(1) have "unconfirmed_count start = 0" "total_value_sat start = 0"
    by (auto simp: summary_cycle_state reset_stats_def WhaleWatch_init_def)
  from summary_of_run[OF this assms(2,3)] show ?thesis .
qed

lemma example_run_state:
  "fst (run ascii_int_of_str (fst (snd (summary_cycle (WhaleWatch_init (Finite 100) 60 (Some quiet_callback)) (Finite 0)))) example_run) =
     \<lparr>threshold_btc = Finite 100, summary_interval = 30, callback = Some quiet_callback,
      unconfirmed_count = 3, total_value_sat = 30000000000, whale_count = 2,
      price_usd = Some (Finite 2)\<rparr>"
  by (simp add: example_run_def run_Cons_fst handle_unconfirmed_tx_state example_tx_locals
      example_floats example_comparisons py_bind_def
      int_tx_locals summary_cycle_state reset_stats_def WhaleWatch_init_def
      update_config_def price_loop_step_def del: run.simps(2))

lemma example_run_summary:
  "snd (snd (summary_cycle (fst (run ascii_int_of_str (fst (snd (summary_cycle (WhaleWatch_init (Finite 100) 60 (Some quiet_callback)) (Finite 0)))) example_run)) (Finite 60))) =
     [(''summary'', summary_event_data 3 (Finite 300) (Finite 100) (Finite 2) 2 (Finite 60))]"
  unfolding example_run_state
  by (simp add: summary_cycle_unfold Let_def py_bind_def example_floats
      reset_stats_def price_or_zero_def fl_truthy_def fl_is_zero_def)

text \<open>
  The example of the specification: totals of 50, 150 and 100 BTC at the threshold 100
  give the count 3, the total 300, the average 100 and 2 whales.
\<close>

theorem summary_counts_every_ingested_tx_witness:
  "\<not> list_ex is_summary_cycle example_run \<and>
   (''summary'', summary_event_data 3 (Finite 300) (Finite 100) (Finite 2) 2 (Finite 60))
     \<in> set (snd (snd (summary_cycle (fst (run ascii_int_of_str
         (fst (snd (summary_cycle (WhaleWatch_init (Finite 100) 60 (Some quiet_callback)) (Finite 0))))
         example_run)) (Finite 60)))) \<and>
   ingested ascii_int_of_str example_run =
     [example_tx ''a'' 5000000000, example_tx ''b'' 15000000000, example_tx ''c'' 10000000000] \<and>
   parsed_values_of_txs ascii_int_of_str (ingested ascii_int_of_str example_run) =
     [5000000000, 15000000000, 10000000000] \<and>
   py_truediv_int_float (sum_list [5000000000, 15000000000, 10000000000]) (Finite 100000000) =
     Inr (Finite 300) \<and>
   py_item (summary_event_data 3 (Finite 300) (Finite 100) (Finite 2) 2 (Finite 60)) ''count'' =
     Some (PInt 3) \<and>
   py_item (summary_event_data 3 (Finite 300) (Finite 100) (Finite 2) 2 (Finite 60)) ''total_btc'' =
     Some (PFloat (Finite 300))"
proof -
  have h2: "\<not> list_ex is_summary_cycle example_run" by (simp add: example_run_def)
  have h3: "(''summary'', summary_event_data 3 (Finite 300) (Finite 100) (Finite 2) 2 (Finite 60))
     \<in> set (snd (snd (summary_cycle (fst (run ascii_int_of_str
         (fst (snd (summary_cycle (WhaleWatch_init (Finite 100) 60 (Some quiet_callback)) (Finite 0))))
         example_run)) (Finite 60))))"
    by (simp add: example_run_summary)
  have ing: "ingested ascii_int_of_str example_run =
     [example_tx ''a'' 5000000000, example_tx ''b'' 15000000000, example_tx ''c'' 10000000000]"
    by (simp add: example_run_def example_tx_locals example_floats py_bind_def int_tx_locals)
  have pv: "parsed_values_of_txs ascii_int_of_str
       [example_tx ''a'' 5000000000, example_tx ''b'' 15000000000, example_tx ''c'' 10000000000] =
     [5000000000, 15000000000, 10000000000]"
    by (simp add: example_tx_outputs)
  from summary_counts_every_ingested_tx[OF disjI1[OF refl] h2 h3] h2 h3 ing pv
  show ?thesis by (auto simp: example_tx_outputs example_floats)
qed

text \<open>
  C1 as stated fails: a transaction without outputs has no parseable output value, and
  the summary counts it.
\<close>

theorem summary_counts_tx_without_outputs_counterexample:
  "snd (snd (summary_cycle
      (fst (run ascii_int_of_str (WhaleWatch_init (Finite 100) 60 (Some quiet_callback))
         [Utx (PDict [(''hash'', PStr ''h''), (''out'', PList [])])]))
      (Finite 60))) =
     [(''summary'', summary_event_data 1 (Finite 0) (Finite 0) (Finite 0) 0 (Finite 60))] \<and>
   py_item (summary_event_data 1 (Finite 0) (Finite 0) (Finite 0) 0 (Finite 60)) ''count'' =
     Some (PInt 1) \<and>
   int (length (filter (has_parseable_output ascii_int_of_str)
      [PDict [(''hash'', PStr ''h''), (''out'', PList [])]])) = 0"
  by (simp add: run_Cons_fst handle_unconfirmed_tx_state unconfirmed_tx_locals_def py_bind_def
      first_addr_of_def example_floats fl_ge_def WhaleWatch_init_def
      summary_cycle_unfold Let_def reset_stats_def
      price_or_zero_def summary_event_data_def py_item_def has_parseable_output_def
      tx_outputs_def invoke_callback_def quiet_callback_def del: run.simps(2))

subsection \<open>Whale classification\<close>

lemma handle_unconfirmed_tx_emissions:
  "snd (snd (handle_unconfirmed_tx P s tx)) =
     (case unconfirmed_tx_locals P tx of
        Inl e \<Rightarrow> []
      | Inr l \<Rightarrow>
          if fl_ge (fst (snd l)) (threshold_btc s) \<and> callback s \<noteq> None
          then [(''whale'', whale_event_data s l)] else [])"
  by (cases "unconfirmed_tx_locals P tx")
     (auto simp: handle_unconfirmed_tx_def record_unconfirmed_tx_def Let_def whale_event_data_def
        split: prod.splits option.splits)

lemma fl_ge_refl: "x \<noteq> NaN \<Longrightarrow> fl_ge x x"
  by (simp add: fl_ge_def)

text \<open>
  C2 (amended). For a transaction that reaches the critical section, \<open>total_btc\<close> is the
  float that the division of the satoshi total by \<^verbatim>\<open>1e8\<close> gives. If it is greater
  than or equal to the threshold of the watcher at that moment, equality included, the
  whale count is incremented and, when a callback is set, one whale event is emitted;
  below the threshold the whale count stays and nothing is emitted. The threshold is the
  one in effect when the transaction is processed: after \<^verbatim>\<open>update_config\<close> it is
  the new one.
\<close>

theorem whale_classified_at_live_threshold:
  assumes "unconfirmed_tx_locals P tx = Inr (total_sat, total_btc, first_addr, timestamp, tx_hash)"
  shows "total_sat = sum_list (parsed_values P (tx_outputs tx)) \<and>
         py_truediv_int_float total_sat (Finite 100000000) = Inr total_btc \<and>
         (fl_ge total_btc (threshold_btc s) \<longrightarrow>
            whale_count (fst (snd (handle_unconfirmed_tx P s tx))) = whale_count s + 1 \<and>
            (callback s = Some cb \<longrightarrow>
               snd (snd (handle_unconfirmed_tx P s tx)) =
                 [(''whale'', whale_event_data s
                     (total_sat, total_btc, first_addr, timestamp, tx_hash))])) \<and>
         (threshold_btc s = total_btc \<longrightarrow> fl_ge total_btc (threshold_btc s)) \<and>
         (\<not> fl_ge total_btc (threshold_btc s) \<longrightarrow>
            whale_count (fst (snd (handle_unconfirmed_tx P s tx))) = whale_count s \<and>
            snd (snd (handle_unconfirmed_tx P s tx)) = []) \<and>
         (fl_ge total_btc new_threshold \<longrightarrow>
            whale_count (fst (snd (handle_unconfirmed_tx P
                (update_config s (Some new_threshold) interval) tx))) = whale_count s + 1)"
proof -
  note tot = locals_total(1,2)[OF assms]
  from locals_total(4)[OF assms] have refl: "fl_ge total_btc total_btc" by (rule fl_ge_refl)
  have thr: "threshold_btc (update_config s (Some new_threshold) interval) = new_threshold"
    by (simp add: update_config_def Let_def split: option.splits)
  show ?thesis
    using assms tot refl thr
    by (auto simp: handle_unconfirmed_tx_state handle_unconfirmed_tx_emissions
        update_config_counters)
qed

text \<open>
  Examples. A transaction of 100 BTC is a whale at the threshold 100 and at the new
  threshold 50, and none at 200. The comparison is on the rounded total:
  13421772799999999 satoshi give the float 134217728.0 and are a whale at that
  threshold, and 9007199254741025 satoshi give 90071992.54741023, which is no whale at
  the threshold 90071992.54741025.
\<close>

lemma rounded_totals:
  "py_truediv_int_float 9007199254741025 (Finite 100000000) =
     Inr (Finite (6044629098073167 / 67108864))"
  "\<not> fl_ge (Finite (6044629098073167 / 67108864)) (Finite (377789318629573 / 4194304))"
  "fl_ge (Finite 134217728) (Finite 134217728)"
  by (code_simp, simp_all add: fl_ge_def)

theorem whale_classified_at_live_threshold_witness:
  "unconfirmed_tx_locals ascii_int_of_str (example_tx ''h'' 10000000000) =
     Inr (10000000000, Finite 100, PStr ''bc1q'', PInt 1700000000, PStr ''h'') \<and>
   fl_ge (Finite 100) (threshold_btc (WhaleWatch_init (Finite 100) 60 (Some quiet_callback))) \<and>
   threshold_btc (WhaleWatch_init (Finite 100) 60 (Some quiet_callback)) = Finite 100 \<and>
   callback (WhaleWatch_init (Finite 100) 60 (Some quiet_callback)) = Some quiet_callback \<and>
   whale_count (fst (snd (handle_unconfirmed_tx ascii_int_of_str
      (WhaleWatch_init (Finite 100) 60 (Some quiet_callback)) (example_tx ''h'' 10000000000)))) = 1 \<and>
   snd (snd (handle_unconfirmed_tx ascii_int_of_str
      (WhaleWatch_init (Finite 100) 60 (Some quiet_callback)) (example_tx ''h'' 10000000000))) =
     [(''whale'', PDict [(''hash'', PStr ''h''), (''value_btc'', PFloat (Finite 100)),
        (''value_usd'', PFloat (Finite 0)), (''timestamp'', PInt 1700000000),
        (''address'', PStr ''bc1q'')])] \<and>
   \<not> fl_ge (Finite 100) (threshold_btc (WhaleWatch_init (Finite 200) 60 (Some quiet_callback))) \<and>
   whale_count (fst (snd (handle_unconfirmed_tx ascii_int_of_str
      (WhaleWatch_init (Finite 200) 60 (Some quiet_callback)) (example_tx ''h'' 10000000000)))) = 0 \<and>
   fl_ge (Finite 100) (Finite 50) \<and>
   whale_count (fst (snd (handle_unconfirmed_tx ascii_int_of_str
      (update_config (WhaleWatch_init (Finite 200) 60 (Some quiet_callback)) (Some (Finite 50)) None)
      (example_tx ''h'' 10000000000)))) = 1 \<and>
   unconfirmed_tx_locals ascii_int_of_str (example_tx ''r'' 13421772799999999) =
     Inr (13421772799999999, Finite 134217728, PStr ''bc1q'', PInt 1700000000, PStr ''r'') \<and>
   whale_count (fst (snd (handle_unconfirmed_tx ascii_int_of_str
      (WhaleWatch_init (Finite 134217728) 60 None) (example_tx ''r'' 13421772799999999)))) = 1 \<and>
   unconfirmed_tx_locals ascii_int_of_str (example_tx ''q'' 9007199254741025) =
     Inr (9007199254741025, Finite (6044629098073167 / 67108864), PStr ''bc1q'', PInt 1700000000, PStr ''q'') \<and>
   whale_count (fst (snd (handle_unconfirmed_tx ascii_int_of_str
      (WhaleWatch_init (Finite (377789318629573 / 4194304)) 60 None) (example_tx ''q'' 9007199254741025)))) = 0"
proof -
  have l: "unconfirmed_tx_locals ascii_int_of_str (example_tx ''h'' 10000000000) =
     Inr (10000000000, Finite 100, PStr ''bc1q'', PInt 1700000000, PStr ''h'')"
    by (simp add: example_tx_locals example_floats py_bind_def)
  have r: "unconfirmed_tx_locals ascii_int_of_str (example_tx ''r'' 13421772799999999) =
     Inr (13421772799999999, Finite 134217728, PStr ''bc1q'', PInt 1700000000, PStr ''r'')"
    by (simp add: example_tx_locals example_rounded_float py_bind_def)
  have q: "unconfirmed_tx_locals ascii_int_of_str (example_tx ''q'' 9007199254741025) =
     Inr (9007199254741025, Finite (6044629098073167 / 67108864), PStr ''bc1q'', PInt 1700000000, PStr ''q'')"
    by (simp add: example_tx_locals rounded_totals py_bind_def)
  from whale_classified_at_live_threshold[OF l,
      of "WhaleWatch_init (Finite 100) 60 (Some quiet_callback)" quiet_callback "Finite 50" None]
    whale_classified_at_live_threshold[OF l,
      of "WhaleWatch_init (Finite 200) 60 (Some quiet_callback)" quiet_callback "Finite 50" None]
    whale_classified_at_live_threshold[OF r,
      of "WhaleWatch_init (Finite 134217728) 60 None" quiet_callback "Finite 50" None]
    whale_classified_at_live_threshold[OF q,
      of "WhaleWatch_init (Finite (377789318629573 / 4194304)) 60 None" quiet_callback "Finite 50" None]
    l r q rounded_totals(2,3)
  show ?thesis
    by (simp add: WhaleWatch_init_def whale_event_data_def price_or_zero_def example_floats
        example_comparisons)
qed

text \<open>
  C2 as stated fails: on a watcher without callback a transaction of exactly the
  threshold increments the whale count, and no event is emitted.
\<close>

theorem whale_without_callback_counterexample:
  "unconfirmed_tx_locals ascii_int_of_str (example_tx ''h'' 10000000000) =
     Inr (10000000000, Finite 100, PStr ''bc1q'', PInt 1700000000, PStr ''h'') \<and>
   fl_ge (Finite 100) (threshold_btc (WhaleWatch_init (Finite 100) 60 None)) \<and>
   whale_count (fst (snd (handle_unconfirmed_tx ascii_int_of_str
      (WhaleWatch_init (Finite 100) 60 None) (example_tx ''h'' 10000000000)))) = 1 \<and>
   snd (snd (handle_unconfirmed_tx ascii_int_of_str
      (WhaleWatch_init (Finite 100) 60 None) (example_tx ''h'' 10000000000))) = []"
  by (simp add: example_tx_locals example_floats example_comparisons py_bind_def
      handle_unconfirmed_tx_state handle_unconfirmed_tx_emissions WhaleWatch_init_def)

subsection \<open>The summary event\<close>

lemma summary_cycle_empty:
  "unconfirmed_count s = 0 \<Longrightarrow> summary_cycle s now = (Normal, reset_stats s, [])"
  by (simp add: summary_cycle_unfold)

lemma summary_emit_empty: "summary_emit s2 (0, total_sat, whales) now = (Normal, [])"
  by (simp add: summary_emit_def)

lemma summary_emit_nonempty:
  assumes "count \<noteq> 0"
      and "callback s2 = Some cb"
      and "py_truediv_int_float total_sat (Finite 100000000) = Inr total_btc"
      and "py_truediv_float_int total_btc count = Inr avg_btc"
  shows "snd (summary_emit s2 (count, total_sat, whales) now) =
           [(''summary'', summary_event_data count total_btc avg_btc
               (price_or_zero (price_usd s2)) whales now)]"
  using assms
  by (simp add: summary_emit_def py_bind_def)

lemma summary_floats_exist:
  assumes "count \<noteq> 0" and "\<bar>total_sat\<bar> < DBL_OVERFLOW" and "\<bar>count\<bar> < DBL_OVERFLOW"
  shows "\<exists>total_btc avg_btc.
           py_truediv_int_float total_sat (Finite 100000000) = Inr total_btc \<and>
           py_truediv_float_int total_btc count = Inr avg_btc"
proof -
  from assms(2) obtain tb where tb: "py_truediv_int_float total_sat (Finite 100000000) = Inr tb"
    by (simp add: truediv_1e8)
  from truediv_float_int_returns[OF assms(1,3)] obtain ab
    where "py_truediv_float_int tb count = Inr ab" by blast
  with tb show ?thesis by blast
qed

lemma price_or_zero_cases:
  "price_or_zero p =
     (case p of None \<Rightarrow> Finite 0 | Some f \<Rightarrow> if fl_is_zero f then Finite 0 else f)"
  by (simp add: price_or_zero_def fl_truthy_def split: option.splits)

text \<open>
  C4 (amended). On every summary cycle the three counters are read and reset in one
  critical section. If the count read is zero, nothing is emitted and control returns to
  the head of the loop. Otherwise, when a callback is set and both the count and the
  cumulative value are in the range of a float, exactly one summary event is emitted: its
  total is the float that the division of the cumulative value by \<^verbatim>\<open>1e8\<close> gives,
  its average is the float quotient of that total and the count, and its two USD fields
  are the float products of the total and of the average with the price cached when the
  event is built, which is 0 when none, or a zero, is cached. Here \<open>s\<close> is the watcher
  at the snapshot and \<open>s2\<close> the watcher when the event is built.
\<close>

theorem summary_cycle_emits_for_nonempty_interval:
  "summary_snapshot s =
     ((unconfirmed_count s, total_value_sat s, whale_count s), reset_stats s) \<and>
   summary_cycle s now =
     (fst (summary_emit (reset_stats s) (fst (summary_snapshot s)) now), reset_stats s,
      snd (summary_emit (reset_stats s) (fst (summary_snapshot s)) now)) \<and>
   (unconfirmed_count s = 0 \<longrightarrow>
      summary_emit s2 (fst (summary_snapshot s)) now = (Normal, [])) \<and>
   (unconfirmed_count s \<noteq> 0 \<and> \<bar>total_value_sat s\<bar> < DBL_OVERFLOW \<and>
    \<bar>unconfirmed_count s\<bar> < DBL_OVERFLOW \<and> callback s2 = Some cb \<longrightarrow>
      (\<exists>total_btc avg_btc price.
         py_truediv_int_float (total_value_sat s) (Finite 100000000) = Inr total_btc \<and>
         py_truediv_float_int total_btc (unconfirmed_count s) = Inr avg_btc \<and>
         price = (case price_usd s2 of
                    None \<Rightarrow> Finite 0
                  | Some p \<Rightarrow> if fl_is_zero p then Finite 0 else p) \<and>
         snd (summary_emit s2 (fst (summary_snapshot s)) now) =
           [(''summary'',
             PDict [(''count'', PInt (unconfirmed_count s)),
                    (''total_btc'', PFloat total_btc),
                    (''avg_btc'', PFloat avg_btc),
                    (''total_usd'', PFloat (fl_mul total_btc price)),
                    (''avg_usd'', PFloat (fl_mul avg_btc price)),
                    (''whales'', PInt (whale_count s)),
                    (''timestamp'', PFloat now)])]))"
proof -
  have cyc: "summary_cycle s now =
     (fst (summary_emit (reset_stats s) (fst (summary_snapshot s)) now), reset_stats s,
      snd (summary_emit (reset_stats s) (fst (summary_snapshot s)) now))"
    by (simp add: summary_cycle_def summary_snapshot_def split: prod.splits)
  have ne: "\<exists>total_btc avg_btc price.
         py_truediv_int_float (total_value_sat s) (Finite 100000000) = Inr total_btc \<and>
         py_truediv_float_int total_btc (unconfirmed_count s) = Inr avg_btc \<and>
         price = (case price_usd s2 of
                    None \<Rightarrow> Finite 0
                  | Some p \<Rightarrow> if fl_is_zero p then Finite 0 else p) \<and>
         snd (summary_emit s2 (fst (summary_snapshot s)) now) =
           [(''summary'',
             PDict [(''count'', PInt (unconfirmed_count s)),
                    (''total_btc'', PFloat total_btc),
                    (''avg_btc'', PFloat avg_btc),
                    (''total_usd'', PFloat (fl_mul total_btc price)),
                    (''avg_usd'', PFloat (fl_mul avg_btc price)),
                    (''whales'', PInt (whale_count s)),
                    (''timestamp'', PFloat now)])]"
    if h: "unconfirmed_count s \<noteq> 0" "\<bar>total_value_sat s\<bar> < DBL_OVERFLOW"
      "\<bar>unconfirmed_count s\<bar> < DBL_OVERFLOW" "callback s2 = Some cb"
  proof -
    from summary_floats_exist[OF h(1,2,3)] obtain tb ab where
      tb: "py_truediv_int_float (total_value_sat s) (Finite 100000000) = Inr tb"
      and ab: "py_truediv_float_int tb (unconfirmed_count s) = Inr ab" by blast
    from summary_emit_nonempty[OF h(1) h(4) tb ab, of "whale_count s" now]
    have "snd (summary_emit s2 (fst (summary_snapshot s)) now) =
           [(''summary'', summary_event_data (unconfirmed_count s) tb ab
               (price_or_zero (price_usd s2)) (whale_count s) now)]"
      by (simp add: summary_snapshot_def)
    with tb ab show ?thesis
      by (simp add: summary_event_data_def price_or_zero_cases)
  qed
  show ?thesis
    using ne by (simp add: cyc summary_snapshot_def summary_emit_empty)
qed

text \<open>
  An empty interval, and an interval of three transactions, 300 BTC and two whales where
  the price changes from 2 to 4 between the snapshot and the event: the USD fields are
  built with 4.
\<close>

theorem summary_cycle_emits_for_nonempty_interval_witness:
  "unconfirmed_count (WhaleWatch_init (Finite 100) 60 None) = 0 \<and>
   summary_emit (WhaleWatch_init (Finite 100) 60 None)
     (fst (summary_snapshot (WhaleWatch_init (Finite 100) 60 None))) (Finite 60) = (Normal, []) \<and>
   unconfirmed_count \<lparr>threshold_btc = Finite 100, summary_interval = 30,
      callback = Some quiet_callback, unconfirmed_count = 3, total_value_sat = 30000000000,
      whale_count = 2, price_usd = Some (Finite 2)\<rparr> \<noteq> 0 \<and>
   \<bar>30000000000\<bar> < DBL_OVERFLOW \<and> \<bar>3\<bar> < DBL_OVERFLOW \<and>
   callback \<lparr>threshold_btc = Finite 100, summary_interval = 30,
      callback = Some quiet_callback, unconfirmed_count = 0, total_value_sat = 0,
      whale_count = 0, price_usd = Some (Finite 4)\<rparr> = Some quiet_callback \<and>
   snd (summary_emit
      \<lparr>threshold_btc = Finite 100, summary_interval = 30,
        callback = Some quiet_callback, unconfirmed_count = 0, total_value_sat = 0,
        whale_count = 0, price_usd = Some (Finite 4)\<rparr>
      (fst (summary_snapshot \<lparr>threshold_btc = Finite 100, summary_interval = 30,
        callback = Some quiet_callback, unconfirmed_count = 3, total_value_sat = 30000000000,
        whale_count = 2, price_usd = Some (Finite 2)\<rparr>)) (Finite 60)) =
     [(''summary'',
       PDict [(''count'', PInt 3), (''total_btc'', PFloat (Finite 300)),
              (''avg_btc'', PFloat (Finite 100)), (''total_usd'', PFloat (Finite 1200)),
              (''avg_usd'', PFloat (Finite 400)), (''whales'', PInt 2),
              (''timestamp'', PFloat (Finite 60))])]"
proof -
  let ?s = "\<lparr>threshold_btc = Finite 100, summary_interval = 30,
      callback = Some quiet_callback, unconfirmed_count = 3, total_value_sat = 30000000000,
      whale_count = 2, price_usd = Some (Finite 2)\<rparr>"
  let ?s2 = "\<lparr>threshold_btc = Finite 100, summary_interval = 30,
        callback = Some quiet_callback, unconfirmed_count = 0, total_value_sat = 0,
        whale_count = 0, price_usd = Some (Finite 4)\<rparr>"
  have h: "unconfirmed_count ?s \<noteq> 0 \<and> \<bar>total_value_sat ?s\<bar> < DBL_OVERFLOW \<and>
      \<bar>unconfirmed_count ?s\<bar> < DBL_OVERFLOW \<and> callback ?s2 = Some quiet_callback"
    by (simp add: DBL_OVERFLOW_def)
  have h0: "unconfirmed_count (WhaleWatch_init (Finite 100) 60 None) = 0"
    by (simp add: WhaleWatch_init_def)
  note thm0 = summary_cycle_emits_for_nonempty_interval[of
      "WhaleWatch_init (Finite 100) 60 None" "Finite 60"
      "WhaleWatch_init (Finite 100) 60 None" quiet_callback]
  note thm1 = summary_cycle_emits_for_nonempty_interval[of ?s "Finite 60" ?s2 quiet_callback]
  from thm0 h0 have empty: "summary_emit (WhaleWatch_init (Finite 100) 60 None)
     (fst (summary_snapshot (WhaleWatch_init (Finite 100) 60 None))) (Finite 60) = (Normal, [])"
    by blast
  from thm1 h obtain tb ab where
    tb: "py_truediv_int_float (total_value_sat ?s) (Finite 100000000) = Inr tb"
    and ab: "py_truediv_float_int tb (unconfirmed_count ?s) = Inr ab"
    and em: "snd (summary_emit ?s2 (fst (summary_snapshot ?s)) (Finite 60)) =
           [(''summary'',
             PDict [(''count'', PInt (unconfirmed_count ?s)),
                    (''total_btc'', PFloat tb),
                    (''avg_btc'', PFloat ab),
                    (''total_usd'', PFloat (fl_mul tb (case price_usd ?s2 of
                                 None \<Rightarrow> Finite 0
                               | Some p \<Rightarrow> if fl_is_zero p then Finite 0 else p))),
                    (''avg_usd'', PFloat (fl_mul ab (case price_usd ?s2 of
                                 None \<Rightarrow> Finite 0
                               | Some p \<Rightarrow> if fl_is_zero p then Finite 0 else p))),
                    (''whales'', PInt (whale_count ?s)),
                    (''timestamp'', PFloat (Finite 60))])]"
    by blast
  from tb have tb300: "tb = Finite 300" by (simp add: example_floats)
  from ab tb300 have ab100: "ab = Finite 100" by (simp add: example_floats)
  from em tb300 ab100 have "snd (summary_emit ?s2 (fst (summary_snapshot ?s)) (Finite 60)) =
     [(''summary'',
       PDict [(''count'', PInt 3), (''total_btc'', PFloat (Finite 300)),
              (''avg_btc'', PFloat (Finite 100)), (''total_usd'', PFloat (Finite 1200)),
              (''avg_usd'', PFloat (Finite 400)), (''whales'', PInt 2),
              (''timestamp'', PFloat (Finite 60))])]"
    by (simp add: example_floats fl_is_zero_def)
  with empty h h0 show ?thesis by simp
qed

text \<open>
  C4 as stated fails: on a watcher without callback a cycle with one transaction counted
  emits nothing.
\<close>

theorem summary_without_callback_counterexample:
  "unconfirmed_count (fst (snd (handle_unconfirmed_tx ascii_int_of_str
      (WhaleWatch_init (Finite 100) 60 None) (example_tx ''h'' 5000000000)))) = 1 \<and>
   snd (snd (summary_cycle (fst (snd (handle_unconfirmed_tx ascii_int_of_str
      (WhaleWatch_init (Finite 100) 60 None) (example_tx ''h'' 5000000000)))) (Finite 60))) = []"
  by (simp add: handle_unconfirmed_tx_state example_tx_locals example_floats py_bind_def
      WhaleWatch_init_def summary_cycle_unfold Let_def reset_stats_def
      split: sum.splits)

subsection \<open>The whale event\<close>

lemma sum_outputs_first_dict:
  "sum_outputs P (out # rest) acc = Inr t \<Longrightarrow> \<exists>d. out = PDict d"
  by (cases out) (auto simp: output_value_def py_bind_def split: if_splits)

lemma first_addr_of_outputs:
  assumes "py_iter outputs = Inr outs" and "sum_outputs P outs 0 = Inr t"
      and "first_addr_of outputs = Inr fa"
  shows "(outs = [] \<longrightarrow> fa = PNone) \<and>
         (\<forall>out rest. outs = out # rest \<longrightarrow> py_get out ''addr'' PNone = Inr fa)"
proof (cases outs)
  case Nil
  with assms(1,3) show ?thesis
    by (cases outputs) (auto simp: first_addr_of_def)
next
  case (Cons out rest)
  with assms(2) obtain d where d: "out = PDict d" using sum_outputs_first_dict by blast
  have "outputs = PList (out # rest)"
  proof (cases outputs)
    case (PStr str)
    with assms(1) Cons d show ?thesis by (cases str) auto
  next
    case (PDict kvs)
    with assms(1) Cons d show ?thesis by (cases kvs) auto
  qed (use assms(1) Cons in auto)
  with assms(3) Cons show ?thesis
    by (simp add: first_addr_of_def py_bind_def)
qed

text \<open>
  C6. Every event that the transaction handler emits is a whale event. It carries the
  hash and the time of the transaction as the upstream sent them; the total in BTC,
  which is the float that the division of the satoshi total by \<^verbatim>\<open>1e8\<close> gives and
  reaches the threshold; the float product of the cached price and that total, which is
  a zero when no price is cached; and the address of the first output, or
  \<^verbatim>\<open>None\<close> when the transaction has no outputs.
\<close>

theorem whale_event_fields:
  assumes "(t, d) \<in> set (snd (snd (handle_unconfirmed_tx P s tx)))"
  shows "\<exists>total_sat total_btc value_usd first_addr timestamp tx_hash.
           t = ''whale'' \<and>
           d = PDict [(''hash'', tx_hash), (''value_btc'', PFloat total_btc),
                      (''value_usd'', PFloat value_usd), (''timestamp'', timestamp),
                      (''address'', first_addr)] \<and>
           py_get tx ''hash'' PNone = Inr tx_hash \<and>
           py_get tx ''time'' PNone = Inr timestamp \<and>
           total_sat = sum_list (parsed_values P (tx_outputs tx)) \<and>
           py_truediv_int_float total_sat (Finite 100000000) = Inr total_btc \<and>
           fl_ge total_btc (threshold_btc s) \<and>
           (price_usd s = None \<longrightarrow>
              value_usd = fl_mul (Finite 0) total_btc \<and> fl_is_zero value_usd) \<and>
           (\<forall>p. price_usd s = Some p \<and> fl_truthy p \<longrightarrow> value_usd = fl_mul p total_btc) \<and>
           (\<forall>p. price_usd s = Some p \<and> \<not> fl_truthy p \<longrightarrow>
              value_usd = fl_mul (Finite 0) total_btc \<and> fl_is_zero value_usd) \<and>
           (tx_outputs tx = [] \<longrightarrow> first_addr = PNone) \<and>
           (\<forall>out rest. tx_outputs tx = out # rest \<longrightarrow> py_get out ''addr'' PNone = Inr first_addr)"
proof (cases "unconfirmed_tx_locals P tx")
  case (Inl e)
  with assms show ?thesis by (simp add: handle_unconfirmed_tx_emissions)
next
  case (Inr l)
  obtain ts tb fa tm h where l': "l = (ts, tb, fa, tm, h)" by (cases l) auto
  note loc = Inr[unfolded l']
  from assms Inr have td: "t = ''whale''" "d = whale_event_data s l"
    and ge: "fl_ge (fst (snd l)) (threshold_btc s)"
    by (auto simp: handle_unconfirmed_tx_emissions split: if_splits)
  from locals_elim[OF loc] obtain outputs outs where
    g: "py_get tx ''out'' (PList []) = Inr outputs" and i: "py_iter outputs = Inr outs"
    and su: "sum_outputs P outs 0 = Inr ts"
    and fa: "first_addr_of outputs = Inr fa"
    and tm: "py_get tx ''time'' PNone = Inr tm" and h: "py_get tx ''hash'' PNone = Inr h"
    by blast
  from g i have outs: "tx_outputs tx = outs" by (simp add: tx_outputs_def py_bind_def)
  note tb = locals_total(2)[OF loc]
  from fl_mul_zero_finite[OF total_btc_finite[OF tb]]
  have z: "fl_is_zero (fl_mul (Finite 0) tb)" .
  from td l' have t: "t = ''whale''"
    and d: "d = PDict [(''hash'', h), (''value_btc'', PFloat tb),
                    (''value_usd'', PFloat (fl_mul (price_or_zero (price_usd s)) tb)),
                    (''timestamp'', tm), (''address'', fa)]"
    by (simp_all add: whale_event_data_def)
  from ge l' have ge': "fl_ge tb (threshold_btc s)" by simp
  from first_addr_of_outputs[OF i su fa] outs
  have addr: "(tx_outputs tx = [] \<longrightarrow> fa = PNone) \<and>
      (\<forall>out rest. tx_outputs tx = out # rest \<longrightarrow> py_get out ''addr'' PNone = Inr fa)"
    by simp
  show ?thesis
    apply (rule exI[of _ ts], rule exI[of _ tb])
    apply (rule exI[of _ "fl_mul (price_or_zero (price_usd s)) tb"])
    apply (rule exI[of _ fa], rule exI[of _ tm], rule exI[of _ h])
    using t d h tm locals_total(1)[OF loc] tb ge' z addr
    apply (simp add: price_or_zero_def)
    done
qed

text \<open>
  A whale of 100 BTC at the cached price 2: the event carries the hash, 100 BTC, 200 USD,
  the upstream time and the address of the only output.
\<close>

theorem whale_event_fields_witness:
  "(''whale'',
    PDict [(''hash'', PStr ''h''), (''value_btc'', PFloat (Finite 100)),
           (''value_usd'', PFloat (Finite 200)), (''timestamp'', PInt 1700000000),
           (''address'', PStr ''bc1q'')])
     \<in> set (snd (snd (handle_unconfirmed_tx ascii_int_of_str
           (price_loop_step (WhaleWatch_init (Finite 100) 60 (Some quiet_callback))
              (Some (Finite 2)))
           (example_tx ''h'' 10000000000)))) \<and>
   price_usd (price_loop_step (WhaleWatch_init (Finite 100) 60 (Some quiet_callback))
              (Some (Finite 2))) = Some (Finite 2) \<and>
   fl_mul (Finite 2) (Finite 100) = Finite 200 \<and>
   tx_outputs (example_tx ''h'' 10000000000) =
     [PDict [(''addr'', PStr ''bc1q''), (''value'', PInt 10000000000)]] \<and>
   py_get (PDict [(''addr'', PStr ''bc1q''), (''value'', PInt 10000000000)]) ''addr'' PNone =
     Inr (PStr ''bc1q'') \<and>
   py_get (example_tx ''h'' 10000000000) ''hash'' PNone = Inr (PStr ''h'') \<and>
   py_get (example_tx ''h'' 10000000000) ''time'' PNone = Inr (PInt 1700000000)"
proof -
  have mem: "(''whale'',
    PDict [(''hash'', PStr ''h''), (''value_btc'', PFloat (Finite 100)),
           (''value_usd'', PFloat (Finite 200)), (''timestamp'', PInt 1700000000),
           (''address'', PStr ''bc1q'')])
     \<in> set (snd (snd (handle_unconfirmed_tx ascii_int_of_str
           (price_loop_step (WhaleWatch_init (Finite 100) 60 (Some quiet_callback))
              (Some (Finite 2)))
           (example_tx ''h'' 10000000000))))"
    by (simp add: handle_unconfirmed_tx_emissions example_tx_locals example_floats
        example_comparisons py_bind_def
        WhaleWatch_init_def price_loop_step_def whale_event_data_def price_or_zero_def
        fl_truthy_def fl_is_zero_def)
  have rest: "price_usd (price_loop_step (WhaleWatch_init (Finite 100) 60 (Some quiet_callback))
              (Some (Finite 2))) = Some (Finite 2) \<and>
   fl_mul (Finite 2) (Finite 100) = Finite 200 \<and>
   tx_outputs (example_tx ''h'' 10000000000) =
     [PDict [(''addr'', PStr ''bc1q''), (''value'', PInt 10000000000)]] \<and>
   py_get (PDict [(''addr'', PStr ''bc1q''), (''value'', PInt 10000000000)]) ''addr'' PNone =
     Inr (PStr ''bc1q'') \<and>
   py_get (example_tx ''h'' 10000000000) ''hash'' PNone = Inr (PStr ''h'') \<and>
   py_get (example_tx ''h'' 10000000000) ''time'' PNone = Inr (PInt 1700000000)"
    by (simp add: price_loop_step_def WhaleWatch_init_def tx_outputs_def py_bind_def
        example_tx_def example_floats)
  from whale_event_fields[OF mem] mem rest show ?thesis by blast
qed

subsection \<open>Exceptions of the callback\<close>

lemma invoke_failing:
  "cb t d = Raises e \<Longrightarrow> is_Exception e \<Longrightarrow> invoke_callback cb t d = Normal"
  by (simp add: invoke_callback_def)

lemma invoke_quiet: "invoke_callback quiet_callback t d = Normal"
  by (simp add: invoke_callback_def quiet_callback_def)

text \<open>
  C10. Let the callback raise an exception derived from \<^verbatim>\<open>Exception\<close> whenever it
  is called. Then each of the three operations that call it ends, keeps the emission it
  made and leaves the watcher exactly as with a callback that returns: no exception
  leaves the operation on account of the callback, and the counters are those of the
  successful case.
\<close>

theorem callback_exception_is_swallowed:
  assumes "\<forall>event_type event_data. \<exists>e. cb event_type event_data = Raises e \<and> is_Exception e"
  shows "handle_unconfirmed_tx P (s\<lparr>callback := Some cb\<rparr>) tx =
           (fst (handle_unconfirmed_tx P (s\<lparr>callback := Some quiet_callback\<rparr>) tx),
            (fst (snd (handle_unconfirmed_tx P (s\<lparr>callback := Some quiet_callback\<rparr>) tx)))
              \<lparr>callback := Some cb\<rparr>,
            snd (snd (handle_unconfirmed_tx P (s\<lparr>callback := Some quiet_callback\<rparr>) tx))) \<and>
         handle_new_block (s\<lparr>callback := Some cb\<rparr>) block now =
           (fst (handle_new_block (s\<lparr>callback := Some quiet_callback\<rparr>) block now),
            s\<lparr>callback := Some cb\<rparr>,
            snd (snd (handle_new_block (s\<lparr>callback := Some quiet_callback\<rparr>) block now))) \<and>
         summary_cycle (s\<lparr>callback := Some cb\<rparr>) now =
           (fst (summary_cycle (s\<lparr>callback := Some quiet_callback\<rparr>) now),
            (reset_stats s)\<lparr>callback := Some cb\<rparr>,
            snd (snd (summary_cycle (s\<lparr>callback := Some quiet_callback\<rparr>) now))) \<and>
         (\<forall>e. fst (handle_unconfirmed_tx P (s\<lparr>callback := Some cb\<rparr>) tx) = Raise e \<longrightarrow>
              unconfirmed_tx_locals P tx = Inl e) \<and>
         (unconfirmed_count s = 0 \<or>
            (\<bar>total_value_sat s\<bar> < DBL_OVERFLOW \<and> \<bar>unconfirmed_count s\<bar> < DBL_OVERFLOW) \<longrightarrow>
            fst (summary_cycle (s\<lparr>callback := Some cb\<rparr>) now) = Normal)"
proof -
  have inv: "invoke_callback cb t d = Normal" for t d
    using assms invoke_failing by metis
  have tx: "handle_unconfirmed_tx P (s\<lparr>callback := Some cb\<rparr>) tx =
           (fst (handle_unconfirmed_tx P (s\<lparr>callback := Some quiet_callback\<rparr>) tx),
            (fst (snd (handle_unconfirmed_tx P (s\<lparr>callback := Some quiet_callback\<rparr>) tx)))
              \<lparr>callback := Some cb\<rparr>,
            snd (snd (handle_unconfirmed_tx P (s\<lparr>callback := Some quiet_callback\<rparr>) tx)))"
    by (cases "unconfirmed_tx_locals P tx")
       (auto simp: handle_unconfirmed_tx_def record_unconfirmed_tx_def Let_def inv invoke_quiet
          whale_event_data_def split: prod.splits)
  have blk: "handle_new_block (s\<lparr>callback := Some cb\<rparr>) block now =
           (fst (handle_new_block (s\<lparr>callback := Some quiet_callback\<rparr>) block now),
            s\<lparr>callback := Some cb\<rparr>,
            snd (snd (handle_new_block (s\<lparr>callback := Some quiet_callback\<rparr>) block now)))"
    by (auto simp: handle_new_block_def inv invoke_quiet split: sum.splits)
  have sm: "summary_cycle (s\<lparr>callback := Some cb\<rparr>) now =
           (fst (summary_cycle (s\<lparr>callback := Some quiet_callback\<rparr>) now),
            (reset_stats s)\<lparr>callback := Some cb\<rparr>,
            snd (snd (summary_cycle (s\<lparr>callback := Some quiet_callback\<rparr>) now)))"
    by (auto simp: summary_cycle_unfold Let_def reset_stats_def inv invoke_quiet split: sum.splits)
  have raise: "\<forall>e. fst (handle_unconfirmed_tx P (s\<lparr>callback := Some cb\<rparr>) tx) = Raise e \<longrightarrow>
              unconfirmed_tx_locals P tx = Inl e"
    by (cases "unconfirmed_tx_locals P tx")
       (auto simp: handle_unconfirmed_tx_def record_unconfirmed_tx_def Let_def inv
          split: prod.splits if_splits)
  have smn: "unconfirmed_count s = 0 \<or>
            (\<bar>total_value_sat s\<bar> < DBL_OVERFLOW \<and> \<bar>unconfirmed_count s\<bar> < DBL_OVERFLOW) \<longrightarrow>
            fst (summary_cycle (s\<lparr>callback := Some cb\<rparr>) now) = Normal"
  proof (cases "unconfirmed_count s = 0")
    case True
    then show ?thesis by (simp add: summary_cycle_unfold)
  next
    case False
    show ?thesis
    proof
      assume "unconfirmed_count s = 0 \<or>
        (\<bar>total_value_sat s\<bar> < DBL_OVERFLOW \<and> \<bar>unconfirmed_count s\<bar> < DBL_OVERFLOW)"
      with False have r: "\<bar>total_value_sat s\<bar> < DBL_OVERFLOW" "\<bar>unconfirmed_count s\<bar> < DBL_OVERFLOW"
        by simp_all
      from summary_floats_exist[OF False r] obtain tb ab where
        "py_truediv_int_float (total_value_sat s) (Finite 100000000) = Inr tb"
        "py_truediv_float_int tb (unconfirmed_count s) = Inr ab" by blast
      with False show "fst (summary_cycle (s\<lparr>callback := Some cb\<rparr>) now) = Normal"
        by (simp add: summary_cycle_unfold Let_def reset_stats_def inv py_bind_def)
    qed
  qed
  from tx blk sm raise smn show ?thesis by blast
qed

text \<open>
  A callback that raises on every call, on a whale transaction: the handler returns, the
  counters are updated and the emission is the one of the successful case.
\<close>

theorem callback_exception_is_swallowed_witness:
  "(\<forall>event_type event_data. \<exists>e. failing_callback event_type event_data = Raises e \<and> is_Exception e) \<and>
   handle_unconfirmed_tx ascii_int_of_str
     ((WhaleWatch_init (Finite 100) 60 None)\<lparr>callback := Some failing_callback\<rparr>)
     (example_tx ''h'' 10000000000) =
     (Normal,
      \<lparr>threshold_btc = Finite 100, summary_interval = 60, callback = Some failing_callback,
       unconfirmed_count = 1, total_value_sat = 10000000000, whale_count = 1, price_usd = None\<rparr>,
      [(''whale'', PDict [(''hash'', PStr ''h''), (''value_btc'', PFloat (Finite 100)),
        (''value_usd'', PFloat (Finite 0)), (''timestamp'', PInt 1700000000),
        (''address'', PStr ''bc1q'')])])"
proof -
  have h: "\<forall>event_type event_data. \<exists>e. failing_callback event_type event_data = Raises e \<and> is_Exception e"
    by (simp add: failing_callback_def)
  have q: "handle_unconfirmed_tx ascii_int_of_str
     ((WhaleWatch_init (Finite 100) 60 None)\<lparr>callback := Some quiet_callback\<rparr>)
     (example_tx ''h'' 10000000000) =
     (Normal,
      \<lparr>threshold_btc = Finite 100, summary_interval = 60, callback = Some quiet_callback,
       unconfirmed_count = 1, total_value_sat = 10000000000, whale_count = 1, price_usd = None\<rparr>,
      [(''whale'', PDict [(''hash'', PStr ''h''), (''value_btc'', PFloat (Finite 100)),
        (''value_usd'', PFloat (Finite 0)), (''timestamp'', PInt 1700000000),
        (''address'', PStr ''bc1q'')])])"
    by (simp add: handle_unconfirmed_tx_def example_tx_locals example_floats
        example_comparisons py_bind_def
        record_unconfirmed_tx_def Let_def WhaleWatch_init_def whale_event_data_def
        price_or_zero_def invoke_quiet)
  from callback_exception_is_swallowed[OF h, of ascii_int_of_str "WhaleWatch_init (Finite 100) 60 None"
      "example_tx ''h'' 10000000000"] h q
  show ?thesis by simp
qed

subsection \<open>Configuration\<close>

text \<open>
  C5. \<^verbatim>\<open>update_config\<close> changes only what it is given: without a threshold the
  threshold stays, without an interval the interval stays, with neither the watcher is
  unchanged; a value that is given is stored, and the counters, the price and the
  callback are never touched.
\<close>

theorem update_config_changes_only_supplied:
  "threshold_btc (update_config s None interval) = threshold_btc s \<and>
   summary_interval (update_config s threshold None) = summary_interval s \<and>
   update_config s None None = s \<and>
   threshold_btc (update_config s (Some t) interval) = t \<and>
   summary_interval (update_config s threshold (Some i)) = i \<and>
   unconfirmed_count (update_config s threshold interval) = unconfirmed_count s \<and>
   total_value_sat (update_config s threshold interval) = total_value_sat s \<and>
   whale_count (update_config s threshold interval) = whale_count s \<and>
   price_usd (update_config s threshold interval) = price_usd s \<and>
   callback (update_config s threshold interval) = callback s"
  by (cases threshold; cases interval) (simp_all add: update_config_def)

text \<open>
  The example of the specification: \<^verbatim>\<open>update_config(threshold=None, interval=30)\<close>
  keeps the threshold and sets the interval to 30.
\<close>

theorem update_config_changes_only_supplied_witness:
  "update_config (WhaleWatch_init (Finite 100) 60 None) None (Some 30) =
     WhaleWatch_init (Finite 100) 30 None \<and>
   threshold_btc (update_config (WhaleWatch_init (Finite 100) 60 None) None (Some 30)) = Finite 100 \<and>
   summary_interval (update_config (WhaleWatch_init (Finite 100) 60 None) None (Some 30)) = 30"
  using update_config_changes_only_supplied[of "WhaleWatch_init (Finite 100) 60 None" "Some 30"
      None "Finite 100" 30]
  by (simp add: update_config_def WhaleWatch_init_def)

subsection \<open>Fan-out\<close>

lemma broadcast_event_result:
  "broadcast_event qs t d =
     (Normal,
      map (\<lambda>q. if queue_full q then q else q\<lparr>queue := queue q @ [(t, d)]\<rparr>) qs,
      real (length (filter queue_full qs)) / 10)"
  by (induction qs) (simp_all add: queue_put_def)

text \<open>
  C7. \<^verbatim>\<open>broadcast_event\<close> always returns. It leaves a full queue as it is and appends
  the event to every queue that is not full, wherever the full ones stand in the list;
  the time it waits for free slots is at most a tenth of a second per queue.
\<close>

theorem full_queue_drops_event_for_itself_only:
  "fst (broadcast_event qs t d) = Normal \<and>
   length (fst (snd (broadcast_event qs t d))) = length qs \<and>
   (\<forall>i < length qs.
      (queue_full (qs ! i) \<longrightarrow> fst (snd (broadcast_event qs t d)) ! i = qs ! i) \<and>
      (\<not> queue_full (qs ! i) \<longrightarrow>
         fst (snd (broadcast_event qs t d)) ! i = (qs ! i)\<lparr>queue := queue (qs ! i) @ [(t, d)]\<rparr>)) \<and>
   snd (snd (broadcast_event qs t d)) \<le> real (length qs) / 10"
proof -
  have "length (filter queue_full qs) \<le> length qs" by simp
  then have "real (length (filter queue_full qs)) / 10 \<le> real (length qs) / 10" by simp
  then show ?thesis by (simp add: broadcast_event_result)
qed

text \<open>
  A saturated queue ahead of an unsaturated one: the first keeps its single item, the
  second receives the event.
\<close>

theorem full_queue_drops_event_for_itself_only_witness:
  "queue_full \<lparr>maxsize = 1, queue = [(''block'', PNone)]\<rparr> \<and>
   \<not> queue_full \<lparr>maxsize = 100, queue = []\<rparr> \<and>
   broadcast_event [\<lparr>maxsize = 1, queue = [(''block'', PNone)]\<rparr>, \<lparr>maxsize = 100, queue = []\<rparr>]
       ''whale'' PNone =
     (Normal,
      [\<lparr>maxsize = 1, queue = [(''block'', PNone)]\<rparr>, \<lparr>maxsize = 100, queue = [(''whale'', PNone)]\<rparr>],
      1 / 10)"
  using full_queue_drops_event_for_itself_only[of
      "[\<lparr>maxsize = 1, queue = [(''block'', PNone)]\<rparr>, \<lparr>maxsize = 100, queue = []\<rparr>]"
      "''whale''" PNone]
  by (simp add: queue_full_def queue_put_def)

subsection \<open>Health check\<close>

text \<open>
  C8. The class defines no \<^verbatim>\<open>is_running\<close>, so the health check never calls one:
  it reports \<^verbatim>\<open>starting\<close> for every watcher, started or not, and never
  \<^verbatim>\<open>healthy\<close> or \<^verbatim>\<open>degraded\<close>.
\<close>

theorem health_check_always_starting:
  "\<not> hasattr_WhaleWatch ''is_running'' \<and>
   health_check is_running watcher = Inr (''starting'', 200)"
  by (simp add: health_check_def hasattr_WhaleWatch_def WhaleWatch_names_def
      split: option.splits)

end
